theory Spec2Isabelle
  imports Main "HOL-Library.Sublist" "HOL-Library.AList"
begin

section \<open>Data model\<close>

text \<open>
  The Storefront API types the cart code works on. Identifiers are strings, quantities
  are GraphQL integers. A cart line carries its own id, a quantity and the id of the
  merchandise it holds (\<^verbatim>\<open>merchandise.id\<close>).
\<close>

type_synonym ID = string

record Merchandise =
  merchandise_id :: ID

record CartLine =
  cl_id :: ID
  cl_quantity :: int
  cl_merchandise :: Merchandise

text \<open>
  \<^verbatim>\<open>CartLineInput\<close>: a requested line. \<^verbatim>\<open>attributes\<close> is optional and never read by
  the code modelled here; it is kept so that two requests for the same merchandise can
  differ.
\<close>

record CartLineInput =
  cli_merchandiseId :: ID
  cli_quantity :: int
  cli_attributes :: "(string \<times> string) list option"

text \<open>
  \<^verbatim>\<open>Cart['lines']\<close> is a connection \<^verbatim>\<open>{edges: [{node: CartLine}]}\<close>. The code reads it
  through \<^verbatim>\<open>lines?.edges?.map(...) || []\<close>, so a missing connection, or a value without
  \<^verbatim>\<open>edges\<close> (the \<^verbatim>\<open>[]\<close> that \<^verbatim>\<open>linesAddResponse\<close> passes for a missing previous cart),
  is \<open>NoEdges\<close>; \<open>Edges ns\<close> holds the nodes of the edges in order.
\<close>

datatype CartLines = NoEdges | Edges "CartLine list"

record Cart =
  cart_id :: ID
  cart_totalQuantity :: int
  cart_lines :: CartLines

text \<open>\<^verbatim>\<open>DiffingLine\<close>: the projection \<^verbatim>\<open>{id, quantity, merchandiseId}\<close> of a cart line.\<close>

record DiffingLine =
  dl_id :: ID
  dl_quantity :: int
  dl_merchandiseId :: ID

section \<open>The sequence diff (\<^verbatim>\<open>diff\<close> of the package fast-array-diff)\<close>

text \<open>
  Modelled from the spec: the function \<^verbatim>\<open>diff(a, b, compareFunc)\<close> that
  \<^verbatim>\<open>diffLines\<close> and \<^verbatim>\<open>useOptimisticCartLinesAdding\<close> import from the package
  fast-array-diff, whose code is not part of the sources. The spec (4.2) describes it as
  a sequence diff in the style of a longest common subsequence between \<^verbatim>\<open>prev\<close> and
  \<^verbatim>\<open>next\<close> under the custom predicate, of which the callers read the \<^verbatim>\<open>added\<close>
  partition (the insertions).

  \<open>bestSubSequence\<close> computes an edit script of least cost: \<open>Same x y\<close> keeps a pair
  that the predicate accepts, \<open>Remove x\<close> drops an element of the first sequence,
  \<open>Add y\<close> inserts an element of the second. Two heads that the predicate accepts are
  kept (following the diagonal); otherwise the cheaper of the two scripts is taken, and
  the removal when both cost the same.
\<close>

datatype 'a Change = Same 'a 'a | Remove 'a | Add 'a

text \<open>Modelled from the spec: the cost of an edit script, its removals and insertions.\<close>

fun edits :: "'a Change list \<Rightarrow> nat" where
  "edits [] = 0"
| "edits (Same x y # cs) = edits cs"
| "edits (Remove x # cs) = Suc (edits cs)"
| "edits (Add y # cs) = Suc (edits cs)"

text \<open>
  Modelled from the spec: the least-cost edit script between \<open>a\<close> and \<open>b\<close> under
  \<open>compareFunc\<close> (fast-array-diff's \<^verbatim>\<open>bestSubSequence\<close>, outside the sources).
\<close>

fun bestSubSequence :: "('a \<Rightarrow> 'a \<Rightarrow> bool) \<Rightarrow> 'a list \<Rightarrow> 'a list \<Rightarrow> 'a Change list" where
  "bestSubSequence compareFunc [] b = map Add b"
| "bestSubSequence compareFunc (x # a) [] = map Remove (x # a)"
| "bestSubSequence compareFunc (x # a) (y # b) =
     (if compareFunc x y then Same x y # bestSubSequence compareFunc a b
      else if edits (bestSubSequence compareFunc a (y # b))
              \<le> edits (bestSubSequence compareFunc (x # a) b)
      then Remove x # bestSubSequence compareFunc a (y # b)
      else Add y # bestSubSequence compareFunc (x # a) b)"

text \<open>Modelled from the spec: the elements an edit script removes, and those it adds.\<close>

fun removedOf :: "'a Change list \<Rightarrow> 'a list" where
  "removedOf [] = []"
| "removedOf (Remove x # cs) = x # removedOf cs"
| "removedOf (c # cs) = removedOf cs"

fun addedOf :: "'a Change list \<Rightarrow> 'a list" where
  "addedOf [] = []"
| "addedOf (Add y # cs) = y # addedOf cs"
| "addedOf (c # cs) = addedOf cs"

record 'a DiffData =
  removed :: "'a list"
  added :: "'a list"

text \<open>
  Modelled from the spec: \<^verbatim>\<open>diff(a, b, compareFunc)\<close> of fast-array-diff (outside the
  sources), returning \<^verbatim>\<open>{removed, added}\<close>.
\<close>

definition diff :: "'a list \<Rightarrow> 'a list \<Rightarrow> ('a \<Rightarrow> 'a \<Rightarrow> bool) \<Rightarrow> 'a DiffData" where
  "diff a b compareFunc =
     (let script = bestSubSequence compareFunc a b
      in \<lparr>removed = removedOf script, added = addedOf script\<rparr>)"

section \<open>The line diff of the add-lines action (\<^verbatim>\<open>diffLines\<close>)\<close>

record DiffLinesProps =
  addingLines :: "CartLineInput list"
  prevLines :: CartLines
  currentLines :: CartLines

record DiffLinesResult =
  linesAdded :: "DiffingLine list"
  linesNotAdded :: "CartLineInput list"

text \<open>The projection \<^verbatim>\<open>lines?.edges?.map(({node: {id, quantity, merchandise}}) => ...) || []\<close>.\<close>

definition toDiffingLine :: "CartLine \<Rightarrow> DiffingLine" where
  "toDiffingLine node =
     \<lparr>dl_id = cl_id node, dl_quantity = cl_quantity node,
      dl_merchandiseId = merchandise_id (cl_merchandise node)\<rparr>"

fun toDiffingLines :: "CartLines \<Rightarrow> DiffingLine list" where
  "toDiffingLines NoEdges = []"
| "toDiffingLines (Edges nodes) = map toDiffingLine nodes"

text \<open>\<^verbatim>\<open>array.includes(v)\<close> on an array of strings.\<close>

fun includes_js :: "'a list \<Rightarrow> 'a \<Rightarrow> bool" where
  "includes_js [] v = False"
| "includes_js (x # xs) v = (x = v \<or> includes_js xs v)"

text \<open>The comparison function of \<^verbatim>\<open>diffLines\<close>.\<close>

definition comparer :: "DiffingLine \<Rightarrow> DiffingLine \<Rightarrow> bool" where
  "comparer prevLine line \<longleftrightarrow>
     dl_id prevLine = dl_id line \<and>
     dl_merchandiseId prevLine = dl_merchandiseId line \<and>
     dl_quantity line \<le> dl_quantity prevLine"

definition diffLines :: "DiffLinesProps \<Rightarrow> DiffLinesResult" where
  "diffLines props =
     (let prev = toDiffingLines (prevLines props);
          next = toDiffingLines (currentLines props);
          added_lines = added (diff prev next comparer);
          linesAddedIds = map dl_merchandiseId added_lines
      in \<lparr>linesAdded = added_lines,
          linesNotAdded =
            filter (\<lambda>line. \<not> includes_js linesAddedIds (cli_merchandiseId line))
              (addingLines props)\<rparr>)"

section \<open>Reconciliation: the analytics event (\<^verbatim>\<open>instrumentEvent\<close>)\<close>

record UserError =
  ue_code :: "string option"
  ue_message :: "string option"
  ue_field :: "string list option"

record LinesAddEventPayload =
  payload_linesAdded :: "DiffingLine list"

record LinesAddEvent =
  event_type :: string
  event_id :: string
  event_payload :: LinesAddEventPayload

text \<open>\<^verbatim>\<open>s.split('/')\<close>: the segments between the separators; never empty.\<close>

fun split :: "char \<Rightarrow> string \<Rightarrow> string list" where
  "split sep [] = [[]]"
| "split sep (c # cs) =
     (if c = sep then [] # split sep cs
      else (case split sep cs of [] \<Rightarrow> [[c]] | w # ws \<Rightarrow> (c # w) # ws))"

text \<open>\<^verbatim>\<open>array.pop()\<close> read for its value: the last element, \<^verbatim>\<open>undefined\<close> on \<^verbatim>\<open>[]\<close>.\<close>

fun pop :: "'a list \<Rightarrow> 'a option" where
  "pop [] = None"
| "pop (x # xs) = Some (last (x # xs))"

text \<open>
  \<^verbatim>\<open>crypto.randomUUID()\<close> is the parameter \<open>randomUUID\<close>: the identifier drawn for this
  call.
\<close>

definition instrumentEvent :: "string \<Rightarrow> DiffLinesProps \<Rightarrow> LinesAddEvent \<times> UserError list" where
  "instrumentEvent randomUUID props =
     (let r = diffLines props;
          event = \<lparr>event_type = ''lines_add'', event_id = randomUUID,
                   event_payload = \<lparr>payload_linesAdded = linesAdded r\<rparr>\<rparr>;
          errors =
            (if linesNotAdded r \<noteq> []
             then map (\<lambda>line. \<lparr>ue_code = Some ''LINE_NOT_ADDED'',
                                 ue_message = pop (split CHR ''/'' (cli_merchandiseId line)),
                                 ue_field = None\<rparr>) (linesNotAdded r)
             else [])
      in (event, errors))"

section \<open>Requests, sessions and the remote API\<close>

text \<open>
  What a handler can throw: a failed \<^verbatim>\<open>invariant(cond, message)\<close>, the
  \<^verbatim>\<open>SyntaxError\<close> of \<^verbatim>\<open>JSON.parse\<close>, the \<^verbatim>\<open>TypeError\<close> of reading a property of
  \<^verbatim>\<open>null\<close>, and a failure of the transport below the storefront client.
\<close>

datatype Error = InvariantFailed string | SyntaxError | TypeError | TransportError

text \<open>
  A form field is a string or a file. \<^verbatim>\<open>FormData\<close> is the list of its entries;
  \<^verbatim>\<open>get\<close> returns the first value of a name (or \<^verbatim>\<open>null\<close>), \<^verbatim>\<open>getAll\<close> all of them.
\<close>

datatype FormDataEntryValue = Str string | File

type_synonym FormData = "(string \<times> FormDataEntryValue) list"

definition get :: "FormData \<Rightarrow> string \<Rightarrow> FormDataEntryValue option" where
  "get formData name = map_of formData name"

definition getAll :: "FormData \<Rightarrow> string \<Rightarrow> FormDataEntryValue list" where
  "getAll formData name = map snd (filter (\<lambda>e. fst e = name) formData)"

text \<open>JavaScript truthiness of a field value and of a stored string; \<^verbatim>\<open>String(v)\<close>.\<close>

fun truthy :: "FormDataEntryValue option \<Rightarrow> bool" where
  "truthy None = False"
| "truthy (Some (Str s)) = (s \<noteq> [])"
| "truthy (Some File) = True"

fun truthy_string :: "string option \<Rightarrow> bool" where
  "truthy_string None = False"
| "truthy_string (Some s) = (s \<noteq> [])"

fun String :: "FormDataEntryValue option \<Rightarrow> string" where
  "String None = ''null''"
| "String (Some (Str s)) = s"
| "String (Some File) = ''[object File]''"

text \<open>
  \<^verbatim>\<open>typeof redirectTo === 'string' && isLocalPath(redirectTo)\<close>, where
  \<^verbatim>\<open>redirectTo = formData.get('redirectTo') ?? null\<close>. \<^verbatim>\<open>isLocalPath\<close> lives in
  \<^verbatim>\<open>~/lib/utils\<close>, outside the sources, and is a parameter.
\<close>

fun localRedirect :: "(string \<Rightarrow> bool) \<Rightarrow> FormData \<Rightarrow> string option" where
  "localRedirect isLocalPath formData =
     (case get formData ''redirectTo'' of
        Some (Str redirectTo) \<Rightarrow> if isLocalPath redirectTo then Some redirectTo else None
      | _ \<Rightarrow> None)"

text \<open>
  The session holds the cart id. \<^verbatim>\<open>session.commit()\<close>, which serialises the session
  into the value of a \<^verbatim>\<open>Set-Cookie\<close> header, is a parameter of the context.
\<close>

record Session =
  session_cartId :: "ID option"

type_synonym Headers = "(string \<times> string) list"

definition set_header :: "string \<Rightarrow> string \<Rightarrow> Headers \<Rightarrow> Headers" where
  "set_header name v headers = AList.update name v headers"

record CartBuyerIdentityInput =
  bi_countryCode :: "FormDataEntryValue option"
  bi_customerAccessToken :: "string option"
  bi_email :: "string option"
  bi_phone :: "string option"

record 'l CartInput =
  input_lines :: "'l list option"
  input_buyerIdentity :: "CartBuyerIdentityInput option"

text \<open>
  The answer of a cart mutation, \<^verbatim>\<open>{cart, errors}\<close>. The schema lets \<^verbatim>\<open>cart\<close> be
  \<^verbatim>\<open>null\<close>, and the code reads \<^verbatim>\<open>errors\<close> through \<^verbatim>\<open>?.\<close>.
\<close>

record CartMutationPayload =
  payload_cart :: "Cart option"
  payload_errors :: "UserError list option"

fun hasErrors :: "UserError list option \<Rightarrow> bool" where
  "hasErrors None = False"
| "hasErrors (Some errors) = (errors \<noteq> [])"

text \<open>
  The storefront client of the add-lines action. Each operation is the remote's answer
  to the request: an exception of the transport (\<open>Inl\<close>), or the data of the
  response, which is \<^verbatim>\<open>null\<close> (\<open>None\<close>) when the remote returned none.
\<close>

record Storefront =
  query_cart :: "ID \<Rightarrow> Error + Cart option"
  mutate_cartCreate :: "CartLineInput CartInput \<Rightarrow> Error + CartMutationPayload option"
  mutate_cartLinesAdd :: "ID \<Rightarrow> CartLineInput list \<Rightarrow> Error + CartMutationPayload option"

record HydrogenContext =
  storefront :: "Storefront option"
  commit :: "Session \<Rightarrow> string"

text \<open>The requests sent to the commerce API, in the order they were made.\<close>

datatype Call =
    QueryCartLines ID
  | MutateCartCreate "CartLineInput CartInput"
  | MutateCartLinesAdd ID "CartLineInput list"

text \<open>The state a handler changes: the session and the log of remote calls.\<close>

record 'c World =
  session :: Session
  calls :: "'c list"

definition log_call :: "'c \<Rightarrow> 'c World \<Rightarrow> 'c World" where
  "log_call c w = w\<lparr>calls := calls w @ [c]\<rparr>"

definition session_set_cartId :: "ID \<Rightarrow> 'c World \<Rightarrow> 'c World" where
  "session_set_cartId v w = w\<lparr>session := (session w)\<lparr>session_cartId := Some v\<rparr>\<rparr>"

section \<open>The add-lines action (\<^verbatim>\<open>CartLinesAdd\<close>)\<close>

definition getCartLines ::
  "ID \<Rightarrow> HydrogenContext \<Rightarrow> Call World \<Rightarrow> (Error + Cart) \<times> Call World" where
  "getCartLines cartId context w =
     (case storefront context of
        None \<Rightarrow> (Inl (InvariantFailed ''missing storefront client in cart create mutation''), w)
      | Some sf \<Rightarrow>
          (case query_cart sf cartId of
             Inl e \<Rightarrow> (Inl e, log_call (QueryCartLines cartId) w)
           | Inr None \<Rightarrow>
               (Inl (InvariantFailed ''No data returned from cart lines query''),
                log_call (QueryCartLines cartId) w)
           | Inr (Some cart) \<Rightarrow> (Inr cart, log_call (QueryCartLines cartId) w)))"

definition cartCreate ::
  "CartLineInput CartInput \<Rightarrow> HydrogenContext \<Rightarrow> Call World
     \<Rightarrow> (Error + CartMutationPayload) \<times> Call World" where
  "cartCreate input context w =
     (case storefront context of
        None \<Rightarrow> (Inl (InvariantFailed ''missing storefront client in cartCreate mutation''), w)
      | Some sf \<Rightarrow>
          (case mutate_cartCreate sf input of
             Inl e \<Rightarrow> (Inl e, log_call (MutateCartCreate input) w)
           | Inr None \<Rightarrow>
               (Inl (InvariantFailed ''No data returned from cartCreate mutation''),
                log_call (MutateCartCreate input) w)
           | Inr (Some payload) \<Rightarrow> (Inr payload, log_call (MutateCartCreate input) w)))"

definition cartLinesAdd ::
  "ID \<Rightarrow> CartLineInput list \<Rightarrow> HydrogenContext \<Rightarrow> Call World
     \<Rightarrow> (Error + CartMutationPayload) \<times> Call World" where
  "cartLinesAdd cartId lines context w =
     (case storefront context of
        None \<Rightarrow> (Inl (InvariantFailed ''missing storefront client in cartLinesAdd mutation''), w)
      | Some sf \<Rightarrow>
          (case mutate_cartLinesAdd sf cartId lines of
             Inl e \<Rightarrow> (Inl e, log_call (MutateCartLinesAdd cartId lines) w)
           | Inr None \<Rightarrow>
               (Inl (InvariantFailed ''No data returned from cartLinesAdd mutation''),
                log_call (MutateCartLinesAdd cartId lines) w)
           | Inr (Some payload) \<Rightarrow> (Inr payload, log_call (MutateCartLinesAdd cartId lines) w)))"

text \<open>
  The responses of the action: \<^verbatim>\<open>json(body, {headers})\<close> with the body
  \<^verbatim>\<open>{event, errors}\<close> (\<^verbatim>\<open>json({errors})\<close> has no event and no headers of the action),
  and \<^verbatim>\<open>redirect(url, {headers})\<close>.
\<close>

record JsonBody =
  body_event :: "LinesAddEvent option"
  body_errors :: "UserError list"

datatype Response = Json JsonBody Headers | Redirect string Headers

record LinesAddResponseProps =
  lar_prevCart :: "Cart option"
  lar_cart :: "Cart option"
  lar_lines :: "CartLineInput list"
  lar_formData :: FormData
  lar_headers :: Headers

definition linesAddResponse ::
  "(string \<Rightarrow> bool) \<Rightarrow> string \<Rightarrow> LinesAddResponseProps \<Rightarrow> Error + Response" where
  "linesAddResponse isLocalPath randomUUID props =
     (case localRedirect isLocalPath (lar_formData props) of
        Some redirectTo \<Rightarrow> Inr (Redirect redirectTo (lar_headers props))
      | None \<Rightarrow>
          (case lar_cart props of
             None \<Rightarrow> Inl TypeError
           | Some c \<Rightarrow>
               (let (event, errors) =
                      instrumentEvent randomUUID
                        \<lparr>addingLines = lar_lines props,
                         prevLines = (case lar_prevCart props of
                                        None \<Rightarrow> NoEdges | Some p \<Rightarrow> cart_lines p),
                         currentLines = cart_lines c\<rparr>
                in Inr (Json \<lparr>body_event = Some event, body_errors = errors\<rparr>
                          (lar_headers props)))))"

text \<open>
  \<^verbatim>\<open>formData.get('lines') ? JSON.parse(String(formData.get('lines'))) : []\<close>.
  \<^verbatim>\<open>JSON.parse\<close> followed by the cast to the array type is the parameter \<open>parse\<close>: it
  returns the decoded array or throws.
\<close>

definition parseField ::
  "(string \<Rightarrow> Error + 'a list) \<Rightarrow> FormData \<Rightarrow> string \<Rightarrow> Error + 'a list" where
  "parseField parse formData name =
     (if truthy (get formData name) then parse (String (get formData name)) else Inr [])"

record Request =
  request_formData :: FormData

definition action ::
  "(string \<Rightarrow> Error + CartLineInput list) \<Rightarrow> (string \<Rightarrow> bool) \<Rightarrow> string
     \<Rightarrow> Request \<Rightarrow> HydrogenContext \<Rightarrow> Call World \<Rightarrow> (Error + Response) \<times> Call World" where
  "action parse isLocalPath randomUUID request context w =
     (let headers = [];
          formData = request_formData request;
          cartId = session_cartId (session w)
      in case parseField parse formData ''lines'' of
           Inl e \<Rightarrow> (Inl e, w)
         | Inr lines \<Rightarrow>
             if lines = [] then (Inl (InvariantFailed ''No lines to add''), w)
             else if \<not> truthy_string cartId then
               (case cartCreate \<lparr>input_lines = Some lines, input_buyerIdentity = None\<rparr> context w of
                  (Inl e, w1) \<Rightarrow> (Inl e, w1)
                | (Inr payload, w1) \<Rightarrow>
                    if hasErrors (payload_errors payload)
                    then (Inr (Json \<lparr>body_event = None,
                                      body_errors = the (payload_errors payload)\<rparr> []), w1)
                    else
                      (case payload_cart payload of
                         None \<Rightarrow> (Inl TypeError, w1)
                       | Some cart \<Rightarrow>
                           (let w2 = session_set_cartId (cart_id cart) w1;
                                headers = set_header ''Set-Cookie'' (commit context (session w2)) headers
                            in (linesAddResponse isLocalPath randomUUID
                                  \<lparr>lar_prevCart = None, lar_cart = Some cart, lar_lines = lines,
                                   lar_formData = formData, lar_headers = headers\<rparr>, w2))))
             else
               (case getCartLines (the cartId) context w of
                  (Inl e, w1) \<Rightarrow> (Inl e, w1)
                | (Inr prevCart, w1) \<Rightarrow>
                    (case cartLinesAdd (the cartId) lines context w1 of
                       (Inl e, w2) \<Rightarrow> (Inl e, w2)
                     | (Inr payload, w2) \<Rightarrow>
                         if hasErrors (payload_errors payload)
                         then (Inr (Json \<lparr>body_event = None,
                                           body_errors = the (payload_errors payload)\<rparr> []), w2)
                         else
                           (linesAddResponse isLocalPath randomUUID
                              \<lparr>lar_prevCart = Some prevCart, lar_cart = payload_cart payload,
                               lar_lines = lines, lar_formData = formData,
                               lar_headers = headers\<rparr>, w2))))"

fun response_headers :: "Response \<Rightarrow> Headers" where
  "response_headers (Json body hs) = hs"
| "response_headers (Redirect url hs) = hs"

section \<open>The cart route action\<close>

text \<open>
  The cart route dispatches on the form field \<^verbatim>\<open>cartAction\<close>. Its mutations
  (\<^verbatim>\<open>cartCreate\<close>, \<^verbatim>\<open>cartAdd\<close>, \<^verbatim>\<open>cartRemove\<close>, \<^verbatim>\<open>cartUpdate\<close>,
  \<^verbatim>\<open>cartDiscountCodesUpdate\<close>, \<^verbatim>\<open>cartUpdateBuyerIdentity\<close>) are imported from
  \<^verbatim>\<open>~/data\<close>, outside the sources: a call is recorded with the arguments the action
  passes, and the answer is a parameter (\<open>env_data\<close>). The action never looks inside
  the elements of the decoded \<^verbatim>\<open>lines\<close> array, whose type \<open>'l\<close> is left open
  (\<^verbatim>\<open>CartLineInput\<close> for an addition, \<^verbatim>\<open>CartLineUpdateInput\<close> for an update).
\<close>

datatype 'l CartCall =
    CartCreate "'l CartInput"
  | CartAdd ID "'l list"
  | CartRemove "ID option" "ID list"
  | CartUpdate "ID option" "'l list"
  | CartDiscountCodesUpdate ID "FormDataEntryValue list"
  | CartUpdateBuyerIdentity ID CartBuyerIdentityInput

record 'l CartEnv =
  env_parseLines :: "string \<Rightarrow> Error + 'l list"
  env_parseIds :: "string \<Rightarrow> Error + ID list"
  env_parseBuyerIdentity :: "string \<Rightarrow> Error + CartBuyerIdentityInput"
  env_isLocalPath :: "string \<Rightarrow> bool"
  env_data :: "'l CartCall \<Rightarrow> Error + CartMutationPayload"
  env_commit :: "Session \<Rightarrow> string"

record CartResponse =
  resp_cart :: "Cart option"
  resp_errors :: "UserError list option"
  resp_status :: nat
  resp_headers :: Headers

definition call_data ::
  "'l CartEnv \<Rightarrow> 'l CartCall \<Rightarrow> 'l CartCall World
     \<Rightarrow> (Error + CartMutationPayload) \<times> 'l CartCall World" where
  "call_data env c w = (env_data env c, log_call c w)"

text \<open>
  \<^verbatim>\<open>session.set('cartId', result.cart.id); headers.set('Set-Cookie', await session.commit())\<close>:
  reading \<^verbatim>\<open>id\<close> of a \<^verbatim>\<open>null\<close> cart throws.
\<close>

definition persist_cartId ::
  "'l CartEnv \<Rightarrow> CartMutationPayload \<Rightarrow> Headers \<Rightarrow> 'l CartCall World
     \<Rightarrow> (Error + CartMutationPayload \<times> Headers) \<times> 'l CartCall World" where
  "persist_cartId env result hs w =
     (case payload_cart result of
        None \<Rightarrow> (Inl TypeError, w)
      | Some c \<Rightarrow>
          (let w1 = session_set_cartId (cart_id c) w
           in (Inr (result, set_header ''Set-Cookie'' (env_commit env (session w1)) hs), w1)))"

text \<open>The \<^verbatim>\<open>switch (cartAction)\<close>: the result of the mutation and the headers so far.\<close>

definition dispatch ::
  "'l CartEnv \<Rightarrow> FormData \<Rightarrow> ID option \<Rightarrow> FormDataEntryValue option \<Rightarrow> Headers
     \<Rightarrow> 'l CartCall World \<Rightarrow> (Error + CartMutationPayload \<times> Headers) \<times> 'l CartCall World" where
  "dispatch env formData cartId cartAction hs w =
     (let countryCode =
            (if truthy (get formData ''countryCode'') then get formData ''countryCode'' else None)
      in
      if cartAction = Some (Str ''ADD_TO_CART'') then
        (case parseField (env_parseLines env) formData ''lines'' of
           Inl e \<Rightarrow> (Inl e, w)
         | Inr lines \<Rightarrow>
             if lines = [] then (Inl (InvariantFailed ''No lines to add''), w)
             else if \<not> truthy_string cartId then
               (case call_data env
                       (CartCreate
                          (if truthy countryCode
                           then \<lparr>input_lines = Some lines,
                                 input_buyerIdentity =
                                   Some \<lparr>bi_countryCode = countryCode,
                                         bi_customerAccessToken = None,
                                         bi_email = None, bi_phone = None\<rparr>\<rparr>
                           else \<lparr>input_lines = Some lines, input_buyerIdentity = None\<rparr>)) w of
                  (Inl e, w1) \<Rightarrow> (Inl e, w1)
                | (Inr result, w1) \<Rightarrow> persist_cartId env result hs w1)
             else
               (case call_data env (CartAdd (the cartId) lines) w of
                  (Inl e, w1) \<Rightarrow> (Inl e, w1)
                | (Inr result, w1) \<Rightarrow> (Inr (result, hs), w1)))
      else if cartAction = Some (Str ''REMOVE_FROM_CART'') then
        (case parseField (env_parseIds env) formData ''linesIds'' of
           Inl e \<Rightarrow> (Inl e, w)
         | Inr lineIds \<Rightarrow>
             if lineIds = [] then (Inl (InvariantFailed ''No lines to remove''), w)
             else
               (case call_data env (CartRemove cartId lineIds) w of
                  (Inl e, w1) \<Rightarrow> (Inl e, w1)
                | (Inr result, w1) \<Rightarrow> (Inr (result, hs), w1)))
      else if cartAction = Some (Str ''UPDATE_CART'') then
        (case parseField (env_parseLines env) formData ''lines'' of
           Inl e \<Rightarrow> (Inl e, w)
         | Inr updateLines \<Rightarrow>
             if updateLines = [] then (Inl (InvariantFailed ''No lines to update''), w)
             else
               (case call_data env (CartUpdate cartId updateLines) w of
                  (Inl e, w1) \<Rightarrow> (Inl e, w1)
                | (Inr result, w1) \<Rightarrow> (Inr (result, hs), w1)))
      else if cartAction = Some (Str ''UPDATE_DISCOUNT'') then
        (if \<not> truthy_string cartId then (Inl (InvariantFailed ''Missing cartId''), w)
         else
           (case call_data env
                   (CartDiscountCodesUpdate (the cartId) (getAll formData ''discountCodes'')) w of
              (Inl e, w1) \<Rightarrow> (Inl e, w1)
            | (Inr result, w1) \<Rightarrow> (Inr (result, hs), w1)))
      else if cartAction = Some (Str ''UPDATE_BUYER_IDENTITY'') then
        (case (if truthy (get formData ''buyerIdentity'')
               then env_parseBuyerIdentity env (String (get formData ''buyerIdentity''))
               else Inr \<lparr>bi_countryCode = None, bi_customerAccessToken = None,
                         bi_email = None, bi_phone = None\<rparr>) of
           Inl e \<Rightarrow> (Inl e, w)
         | Inr buyerIdentity \<Rightarrow>
             (case call_data env
                     (if truthy_string cartId
                      then CartUpdateBuyerIdentity (the cartId) buyerIdentity
                      else CartCreate \<lparr>input_lines = None,
                                       input_buyerIdentity = Some buyerIdentity\<rparr>) w of
                (Inl e, w1) \<Rightarrow> (Inl e, w1)
              | (Inr result, w1) \<Rightarrow> persist_cartId env result hs w1))
      else (Inl (InvariantFailed (String cartAction @ '' cart action is not defined'')), w))"

definition action_cart ::
  "'l CartEnv \<Rightarrow> Request \<Rightarrow> 'l CartCall World \<Rightarrow> (Error + CartResponse) \<times> 'l CartCall World" where
  "action_cart env request w =
     (let formData = request_formData request;
          cartId = session_cartId (session w);
          cartAction = get formData ''cartAction''
      in if \<not> truthy cartAction then (Inl (InvariantFailed ''No cartAction defined''), w)
         else
           (case dispatch env formData cartId cartAction [] w of
              (Inl e, w1) \<Rightarrow> (Inl e, w1)
            | (Inr (result, hs), w1) \<Rightarrow>
                (case localRedirect (env_isLocalPath env) formData of
                   Some redirectTo \<Rightarrow>
                     (Inr \<lparr>resp_cart = payload_cart result, resp_errors = payload_errors result,
                           resp_status = 303,
                           resp_headers = set_header ''Location'' redirectTo hs\<rparr>, w1)
                 | None \<Rightarrow>
                     (Inr \<lparr>resp_cart = payload_cart result, resp_errors = payload_errors result,
                           resp_status = 200, resp_headers = hs\<rparr>, w1))))"

section \<open>The consumers of the event (\<^verbatim>\<open>CartLinesAddForm\<close>, \<^verbatim>\<open>useCartLinesAdd\<close>)\<close>

text \<open>
  Both consumers hold a cell \<^verbatim>\<open>lastEventId\<close> (a \<^verbatim>\<open>useRef\<close>, initially
  \<^verbatim>\<open>undefined\<close>) and run an effect on the event of the fetcher's data
  (\<^verbatim>\<open>fetcher?.data?.event\<close>, \<open>None\<close> when there is none). \<open>delivered\<close> records the
  calls of \<^verbatim>\<open>onSuccess\<close> in order; the flag says whether a callback was given
  (\<^verbatim>\<open>onSuccess?.(event)\<close>).
\<close>

record ConsumerState =
  lastEventId :: "string option"
  delivered :: "LinesAddEvent list"

definition initialConsumer :: ConsumerState where
  "initialConsumer = \<lparr>lastEventId = None, delivered = []\<rparr>"

definition CartLinesAddForm_effect ::
  "bool \<Rightarrow> LinesAddEvent option \<Rightarrow> ConsumerState \<Rightarrow> ConsumerState" where
  "CartLinesAddForm_effect onSuccess event st =
     (case event of
        None \<Rightarrow> st
      | Some ev \<Rightarrow>
          if event_id ev = [] then st
          else if Some (event_id ev) = lastEventId st then st
          else \<lparr>lastEventId = Some (event_id ev),
                delivered = (if onSuccess then delivered st @ [ev] else delivered st)\<rparr>)"

definition useCartLinesAdd_effect ::
  "bool \<Rightarrow> LinesAddEvent option \<Rightarrow> ConsumerState \<Rightarrow> ConsumerState" where
  "useCartLinesAdd_effect onSuccess event st =
     (case event of
        None \<Rightarrow> st
      | Some ev \<Rightarrow>
          if lastEventId st = Some (event_id ev) then st
          else \<lparr>lastEventId = Some (event_id ev),
                delivered = (if onSuccess then delivered st @ [ev] else delivered st)\<rparr>)"

text \<open>The effect run once for each observation of the fetcher's data, in order.\<close>

definition runEffects ::
  "(LinesAddEvent option \<Rightarrow> ConsumerState \<Rightarrow> ConsumerState) \<Rightarrow> LinesAddEvent option list
     \<Rightarrow> ConsumerState" where
  "runEffects effect observations = fold effect observations initialConsumer"

text \<open>The events among the observations.\<close>

definition observedEvents :: "LinesAddEvent option list \<Rightarrow> LinesAddEvent list" where
  "observedEvents observations = List.map_filter (\<lambda>e. e) observations"

text \<open>
  The id of the event that \<^verbatim>\<open>onSuccess\<close> was last called with, and the event ids each
  effect gets to compare: \<^verbatim>\<open>CartLinesAddForm\<close> returns early on a falsy id
  (\<^verbatim>\<open>!eventId\<close>), \<^verbatim>\<open>useCartLinesAdd\<close> on a missing event only.
\<close>

definition lastDeliveredId :: "ConsumerState \<Rightarrow> string option" where
  "lastDeliveredId st =
     (case delivered st of [] \<Rightarrow> None | e # es \<Rightarrow> Some (event_id (last (e # es))))"

definition formObservedIds :: "LinesAddEvent option list \<Rightarrow> string list" where
  "formObservedIds observations =
     filter (\<lambda>i. i \<noteq> []) (map event_id (observedEvents observations))"

definition hookObservedIds :: "LinesAddEvent option list \<Rightarrow> string list" where
  "hookObservedIds observations = map event_id (observedEvents observations)"

section \<open>The optimistic lines (\<^verbatim>\<open>useOptimisticCartLinesAdding\<close>)\<close>

text \<open>\<^verbatim>\<open>PartialDeep<CartLine>\<close>: every property may be missing.\<close>

record PartialMerchandise =
  pm_id :: "ID option"

record PartialCartLine =
  pl_id :: "ID option"
  pl_quantity :: "int option"
  pl_merchandise :: "PartialMerchandise option"

text \<open>\<^verbatim>\<open>line?.merchandise?.id\<close>.\<close>

definition merchandiseIdOf :: "PartialCartLine \<Rightarrow> ID option" where
  "merchandiseIdOf line = (case pl_merchandise line of None \<Rightarrow> None | Some m \<Rightarrow> pm_id m)"

definition comparer_optimistic :: "PartialCartLine \<Rightarrow> PartialCartLine \<Rightarrow> bool" where
  "comparer_optimistic prevLine line =
     (case merchandiseIdOf prevLine of
        None \<Rightarrow> False
      | Some a \<Rightarrow> (case merchandiseIdOf line of None \<Rightarrow> False | Some b \<Rightarrow> a = b))"

record Submission =
  submission_action :: string
  submission_formData :: FormData

record Fetcher =
  fetcher_submission :: "Submission option"

text \<open>
  \<^verbatim>\<open>useCartLinesAddingFetcher\<close>: the first fetcher submitting to the action path
  (\<^verbatim>\<open>usePrefixPathWithLocale(ACTION_PATH)\<close>, a parameter).
\<close>

definition useCartLinesAddingFetcher :: "string \<Rightarrow> Fetcher list \<Rightarrow> Fetcher option" where
  "useCartLinesAddingFetcher localizedActionPath fetchers =
     find (\<lambda>fetcher. case fetcher_submission fetcher of
                        None \<Rightarrow> False
                      | Some sub \<Rightarrow> submission_action sub = localizedActionPath) fetchers"

record OptimisticLinesAddingReturnType =
  optimisticLines :: "PartialCartLine list"
  optimisticLinesNew :: "PartialCartLine list"

text \<open>\<^verbatim>\<open>fetcher?.submission?.formData?.get('optimisticLines')\<close>.\<close>

definition optimisticLinesField :: "Fetcher option \<Rightarrow> FormDataEntryValue option" where
  "optimisticLinesField fetcher =
     (case fetcher of
        None \<Rightarrow> None
      | Some f \<Rightarrow>
          (case fetcher_submission f of
             None \<Rightarrow> None
           | Some sub \<Rightarrow> get (submission_formData sub) ''optimisticLines''))"

text \<open>
  The argument \<^verbatim>\<open>lines\<close> has the type \<^verbatim>\<open>unknown\<close>: it is \<open>Some ls\<close> when it is
  an array and \<open>None\<close> otherwise. \<open>parse\<close> is \<^verbatim>\<open>JSON.parse\<close> at the type of the
  array of lines; its exception is not caught.
\<close>

definition useOptimisticCartLinesAdding ::
  "(string \<Rightarrow> Error + PartialCartLine list) \<Rightarrow> string \<Rightarrow> Fetcher list
     \<Rightarrow> PartialCartLine list option \<Rightarrow> Error + OptimisticLinesAddingReturnType" where
  "useOptimisticCartLinesAdding parse localizedActionPath fetchers lines =
     (case optimisticLinesField (useCartLinesAddingFetcher localizedActionPath fetchers) of
        Some (Str optimisticLinesStr) \<Rightarrow>
          if optimisticLinesStr = [] then Inr \<lparr>optimisticLines = [], optimisticLinesNew = []\<rparr>
          else
            (case parse optimisticLinesStr of
               Inl e \<Rightarrow> Inl e
             | Inr parsed \<Rightarrow>
                 if parsed = [] then Inr \<lparr>optimisticLines = parsed, optimisticLinesNew = []\<rparr>
                 else
                   (case lines of
                      None \<Rightarrow> Inr \<lparr>optimisticLines = parsed, optimisticLinesNew = parsed\<rparr>
                    | Some ls \<Rightarrow>
                        if ls = []
                        then Inr \<lparr>optimisticLines = parsed, optimisticLinesNew = parsed\<rparr>
                        else Inr \<lparr>optimisticLines = parsed,
                                  optimisticLinesNew = added (diff ls parsed comparer_optimistic)\<rparr>))
      | _ \<Rightarrow> Inr \<lparr>optimisticLines = [], optimisticLinesNew = []\<rparr>)"

section \<open>Example values\<close>

text \<open>
  Concrete requests, carts and answers of the remote, on which the theorems below are
  evaluated. \<open>ex_parse\<close> decodes one text, to the array holding \<open>ex_line\<close>, and
  throws on every other; \<open>ex_isLocalPath\<close> accepts the urls that start with a slash.
\<close>

definition ex_line :: CartLineInput where
  "ex_line = \<lparr>cli_merchandiseId = ''gid://shopify/ProductVariant/1'', cli_quantity = 1,
              cli_attributes = None\<rparr>"

definition ex_parse :: "string \<Rightarrow> Error + CartLineInput list" where
  "ex_parse s = (if s = ''[ex_line]'' then Inr [ex_line] else Inl SyntaxError)"

definition ex_isLocalPath :: "string \<Rightarrow> bool" where
  "ex_isLocalPath url = (take 1 url = ''/'')"

definition ex_error :: UserError where
  "ex_error = \<lparr>ue_code = Some ''INVALID'', ue_message = Some ''The merchandise does not exist'',
               ue_field = Some [''lines'']\<rparr>"

definition ex_cart :: Cart where
  "ex_cart = \<lparr>cart_id = ''gid://shopify/Cart/1'', cart_totalQuantity = 1,
              cart_lines = Edges [\<lparr>cl_id = ''gid://shopify/CartLine/1'', cl_quantity = 1,
                cl_merchandise = \<lparr>merchandise_id = ''gid://shopify/ProductVariant/1''\<rparr>\<rparr>]\<rparr>"

text \<open>A storefront whose cart is empty before the mutation and whose mutations answer \<open>answer\<close>.\<close>

definition ex_storefront :: "CartMutationPayload \<Rightarrow> Storefront" where
  "ex_storefront answer =
     \<lparr>query_cart = (\<lambda>cartId. Inr (Some \<lparr>cart_id = cartId, cart_totalQuantity = 0,
                                          cart_lines = Edges []\<rparr>)),
      mutate_cartCreate = (\<lambda>input. Inr (Some answer)),
      mutate_cartLinesAdd = (\<lambda>cartId lines. Inr (Some answer))\<rparr>"

definition ex_commit :: "Session \<Rightarrow> string" where
  "ex_commit s = ''cart='' @ (case session_cartId s of None \<Rightarrow> [] | Some c \<Rightarrow> c)"

definition ex_context :: "CartMutationPayload \<Rightarrow> HydrogenContext" where
  "ex_context answer = \<lparr>storefront = Some (ex_storefront answer), commit = ex_commit\<rparr>"

definition ex_world :: "ID option \<Rightarrow> 'c World" where
  "ex_world cartId = \<lparr>session = \<lparr>session_cartId = cartId\<rparr>, calls = []\<rparr>"

definition ex_rejected :: CartMutationPayload where
  "ex_rejected = \<lparr>payload_cart = None, payload_errors = Some [ex_error]\<rparr>"

definition ex_accepted :: CartMutationPayload where
  "ex_accepted = \<lparr>payload_cart = Some ex_cart, payload_errors = Some []\<rparr>"

text \<open>
  An environment of the cart route whose mutations all answer \<open>answer\<close>; \<open>ex_partial\<close>
  is an answer holding a cart together with an error.
\<close>

definition ex_env :: "CartMutationPayload \<Rightarrow> CartLineInput CartEnv" where
  "ex_env answer =
     \<lparr>env_parseLines = ex_parse,
      env_parseIds = (\<lambda>s. if s = ''[ex_line_id]'' then Inr [''gid://shopify/CartLine/1'']
                           else Inl SyntaxError),
      env_parseBuyerIdentity = (\<lambda>s. Inl SyntaxError),
      env_isLocalPath = ex_isLocalPath,
      env_data = (\<lambda>c. Inr answer),
      env_commit = ex_commit\<rparr>"

definition ex_partial :: CartMutationPayload where
  "ex_partial = \<lparr>payload_cart = Some ex_cart, payload_errors = Some [ex_error]\<rparr>"

text \<open>Two events, and optimistic lines for two kinds of merchandise with their decoder.\<close>

definition ex_event :: "string \<Rightarrow> LinesAddEvent" where
  "ex_event uuid = \<lparr>event_type = ''lines_add'', event_id = uuid,
                    event_payload = \<lparr>payload_linesAdded = []\<rparr>\<rparr>"

definition ex_optimistic :: "ID option \<Rightarrow> ID \<Rightarrow> PartialCartLine" where
  "ex_optimistic line_id variant =
     \<lparr>pl_id = line_id, pl_quantity = Some 1, pl_merchandise = Some \<lparr>pm_id = Some variant\<rparr>\<rparr>"

definition ex_parse_optimistic :: "string \<Rightarrow> Error + PartialCartLine list" where
  "ex_parse_optimistic s =
     (if s = ''[A,B]'' then Inr [ex_optimistic None ''variant/A'', ex_optimistic None ''variant/B'']
      else Inl SyntaxError)"

definition ex_fetchers :: "Fetcher list" where
  "ex_fetchers =
     [\<lparr>fetcher_submission = None\<rparr>,
      \<lparr>fetcher_submission = Some \<lparr>submission_action = ''/cart/CartLinesAdd'',
          submission_formData = [(''lines'', Str ''[ex_line]''),
                                 (''optimisticLines'', Str ''[A,B]'')]\<rparr>\<rparr>]"

section \<open>Carts that keep their order\<close>

text \<open>
  Two sequences are in the same order under a key when the keys are distinct within each
  and the keys common to both occur in the same order in both. For cart lines under the
  line id: a line id names one line of each snapshot, and the lines present before and
  after the mutation keep their relative order.
\<close>

definition sameOrder :: "('a \<Rightarrow> 'k) \<Rightarrow> 'a list \<Rightarrow> 'a list \<Rightarrow> bool" where
  "sameOrder key a b \<longleftrightarrow>
     distinct (map key a) \<and> distinct (map key b) \<and>
     filter (\<lambda>i. i \<in> key ` set b) (map key a) = filter (\<lambda>i. i \<in> key ` set a) (map key b)"

text \<open>
  Two inputs of \<^verbatim>\<open>diffLines\<close>. In \<open>ex_grown\<close> the cart keeps its order: line 1 grows
  from 1 to 3 and line 3 is new, for merchandise that line 1 holds already. In
  \<open>ex_reordered\<close> line 1 moves behind the other two while its quantity drops from 5 to
  3, and line 4 is new.
\<close>

definition ex_cartLine :: "ID \<Rightarrow> int \<Rightarrow> ID \<Rightarrow> CartLine" where
  "ex_cartLine line_id quantity variant =
     \<lparr>cl_id = line_id, cl_quantity = quantity, cl_merchandise = \<lparr>merchandise_id = variant\<rparr>\<rparr>"

definition ex_grown :: DiffLinesProps where
  "ex_grown =
     \<lparr>addingLines = [\<lparr>cli_merchandiseId = ''A'', cli_quantity = 3, cli_attributes = None\<rparr>],
      prevLines = Edges [ex_cartLine ''1'' 1 ''A'', ex_cartLine ''2'' 2 ''B''],
      currentLines = Edges [ex_cartLine ''1'' 3 ''A'', ex_cartLine ''2'' 2 ''B'',
                            ex_cartLine ''3'' 1 ''A'']\<rparr>"

definition ex_reordered :: DiffLinesProps where
  "ex_reordered =
     \<lparr>addingLines = [\<lparr>cli_merchandiseId = ''A'', cli_quantity = 1, cli_attributes = None\<rparr>],
      prevLines = Edges [ex_cartLine ''1'' 5 ''A'', ex_cartLine ''2'' 5 ''B'',
                         ex_cartLine ''3'' 5 ''C''],
      currentLines = Edges [ex_cartLine ''2'' 5 ''B'', ex_cartLine ''3'' 5 ''C'',
                            ex_cartLine ''1'' 3 ''A'', ex_cartLine ''4'' 1 ''A'']\<rparr>"

section \<open>Properties of the sequence diff\<close>

lemma addedOf_map_Add [simp]: "addedOf (map Add b) = b"
  by (induction b) simp_all

lemma addedOf_map_Remove [simp]: "addedOf (map Remove a) = []"
  by (induction a) simp_all

lemma added_diff: "added (diff a b f) = addedOf (bestSubSequence f a b)"
  by (simp add: diff_def Let_def)

lemma added_diff_Nil_left [simp]: "added (diff [] b f) = b"
  by (simp add: added_diff)

lemma added_diff_Nil_right [simp]: "added (diff a [] f) = []"
  by (cases a) (simp_all add: added_diff)

text \<open>The additions are a subsequence of the second argument.\<close>

lemma subseq_addedOf: "subseq (addedOf (bestSubSequence f a b)) b"
  by (induction f a b rule: bestSubSequence.induct) auto

lemma subseq_added_diff: "subseq (added (diff a b f)) b"
  by (simp add: added_diff subseq_addedOf)

text \<open>An element of the second argument that no element of the first matches is added.\<close>

lemma unmatched_in_addedOf:
  "y \<in> set b \<Longrightarrow> \<forall>x \<in> set a. \<not> f x y \<Longrightarrow> y \<in> set (addedOf (bestSubSequence f a b))"
  by (induction f a b rule: bestSubSequence.induct) auto

lemma unmatched_in_added:
  "y \<in> set b \<Longrightarrow> \<forall>x \<in> set a. \<not> f x y \<Longrightarrow> y \<in> set (added (diff a b f))"
  by (simp add: added_diff unmatched_in_addedOf)

text \<open>When no pair matches at all, everything is added.\<close>

lemma nothing_matches_addedOf:
  "\<forall>x \<in> set a. \<forall>y \<in> set b. \<not> f x y \<Longrightarrow> addedOf (bestSubSequence f a b) = b"
  by (induction f a b rule: bestSubSequence.induct) auto

lemma nothing_matches_added:
  "\<forall>x \<in> set a. \<forall>y \<in> set b. \<not> f x y \<Longrightarrow> added (diff a b f) = b"
  by (simp add: added_diff nothing_matches_addedOf)

section \<open>Properties of \<^verbatim>\<open>diffLines\<close>\<close>

lemma includes_iff: "includes_js xs v \<longleftrightarrow> v \<in> set xs"
  by (induction xs) auto

lemma linesAdded_diffLines:
  "linesAdded (diffLines props) =
     added (diff (toDiffingLines (prevLines props)) (toDiffingLines (currentLines props)) comparer)"
  by (simp add: diffLines_def Let_def)

lemma linesNotAdded_diffLines:
  "linesNotAdded (diffLines props) =
     filter (\<lambda>line. cli_merchandiseId line \<notin> set (map dl_merchandiseId (linesAdded (diffLines props))))
       (addingLines props)"
  by (simp add: diffLines_def Let_def includes_iff)

text \<open>
  Claim C1. The comparison function of \<^verbatim>\<open>diffLines\<close> accepts a line of \<^verbatim>\<open>prev\<close> and a
  line of \<^verbatim>\<open>next\<close> exactly when they have the same line id, the same merchandise id,
  and the quantity of the line of \<^verbatim>\<open>next\<close> is at most that of the line of \<^verbatim>\<open>prev\<close>.
  Consequently a line of \<^verbatim>\<open>next\<close> is in \<^verbatim>\<open>linesAdded\<close> whenever every line of \<^verbatim>\<open>prev\<close>
  with its line id and merchandise id has a strictly smaller quantity; in particular,
  a line id naming one line of the previous cart (the line ids of \<^verbatim>\<open>prev\<close> are
  distinct), whenever the line with its line id and merchandise id in \<^verbatim>\<open>prev\<close> has a
  strictly smaller quantity.
\<close>

theorem diffLines_quantity_increase_added:
  fixes props :: DiffLinesProps
  defines "prev \<equiv> toDiffingLines (prevLines props)"
    and "next \<equiv> toDiffingLines (currentLines props)"
  shows "(comparer prevLine line \<longleftrightarrow>
            dl_id prevLine = dl_id line \<and>
            dl_merchandiseId prevLine = dl_merchandiseId line \<and>
            dl_quantity line \<le> dl_quantity prevLine)
       \<and> (\<forall>n \<in> set next.
            (\<forall>p \<in> set prev.
               dl_id p = dl_id n \<and> dl_merchandiseId p = dl_merchandiseId n
               \<longrightarrow> dl_quantity p < dl_quantity n)
            \<longrightarrow> n \<in> set (linesAdded (diffLines props)))
       \<and> (distinct (map dl_id prev) \<longrightarrow>
            (\<forall>p \<in> set prev. \<forall>n \<in> set next.
               dl_id p = dl_id n \<and> dl_merchandiseId p = dl_merchandiseId n \<and>
               dl_quantity p < dl_quantity n
               \<longrightarrow> n \<in> set (linesAdded (diffLines props))))"
proof -
  have grown: "n \<in> set (linesAdded (diffLines props))"
    if n: "n \<in> set next"
      and less: "\<forall>p \<in> set prev.
               dl_id p = dl_id n \<and> dl_merchandiseId p = dl_merchandiseId n
               \<longrightarrow> dl_quantity p < dl_quantity n"
    for n
  proof -
    have "\<forall>x \<in> set prev. \<not> comparer x n"
      using less by (fastforce simp add: comparer_def)
    with n have "n \<in> set (added (diff prev next comparer))"
      by (rule unmatched_in_added)
    then show ?thesis
      by (simp add: linesAdded_diffLines prev_def next_def)
  qed
  have one: "n \<in> set (linesAdded (diffLines props))"
    if d: "distinct (map dl_id prev)"
      and p: "p \<in> set prev" and n: "n \<in> set next"
      and inc: "dl_id p = dl_id n \<and> dl_merchandiseId p = dl_merchandiseId n \<and>
                dl_quantity p < dl_quantity n"
    for p n
  proof (rule grown [OF n], intro ballI impI)
    fix x
    assume x: "x \<in> set prev"
      and same: "dl_id x = dl_id n \<and> dl_merchandiseId x = dl_merchandiseId n"
    from same inc have "dl_id x = dl_id p" by simp
    with d x p have "x = p" by (simp add: distinct_map inj_on_def)
    with inc show "dl_quantity x < dl_quantity n" by simp
  qed
  have cmp: "comparer prevLine line \<longleftrightarrow>
            dl_id prevLine = dl_id line \<and>
            dl_merchandiseId prevLine = dl_merchandiseId line \<and>
            dl_quantity line \<le> dl_quantity prevLine"
    by (simp add: comparer_def)
  from cmp grown one show ?thesis by blast
qed

theorem diffLines_quantity_increase_added_witness:
  "\<lparr>dl_id = ''line/1'', dl_quantity = 3, dl_merchandiseId = ''variant/7''\<rparr>
     \<in> set (linesAdded (diffLines
         \<lparr>addingLines = [\<lparr>cli_merchandiseId = ''variant/7'', cli_quantity = 2, cli_attributes = None\<rparr>],
          prevLines = Edges [\<lparr>cl_id = ''line/1'', cl_quantity = 1,
                              cl_merchandise = \<lparr>merchandise_id = ''variant/7''\<rparr>\<rparr>],
          currentLines = Edges [\<lparr>cl_id = ''line/1'', cl_quantity = 3,
                                 cl_merchandise = \<lparr>merchandise_id = ''variant/7''\<rparr>\<rparr>]\<rparr>))"
  using diffLines_quantity_increase_added
    [of "\<lparr>dl_id = ''line/1'', dl_quantity = 1, dl_merchandiseId = ''variant/7''\<rparr>"
        "\<lparr>dl_id = ''line/1'', dl_quantity = 3, dl_merchandiseId = ''variant/7''\<rparr>"
        "\<lparr>addingLines = [\<lparr>cli_merchandiseId = ''variant/7'', cli_quantity = 2, cli_attributes = None\<rparr>],
          prevLines = Edges [\<lparr>cl_id = ''line/1'', cl_quantity = 1,
                              cl_merchandise = \<lparr>merchandise_id = ''variant/7''\<rparr>\<rparr>],
          currentLines = Edges [\<lparr>cl_id = ''line/1'', cl_quantity = 3,
                                 cl_merchandise = \<lparr>merchandise_id = ''variant/7''\<rparr>\<rparr>]\<rparr>"]
  by (simp add: toDiffingLine_def)

text \<open>
  Claim C2. \<^verbatim>\<open>linesNotAdded\<close> is exactly the sequence of the lines of \<^verbatim>\<open>addingLines\<close>
  whose merchandise id does not occur among the merchandise ids of \<^verbatim>\<open>linesAdded\<close>; so
  a requested line is in \<^verbatim>\<open>linesNotAdded\<close> if and only if its merchandise id is absent
  from \<^verbatim>\<open>linesAdded\<close>.
\<close>

theorem diffLines_linesNotAdded_complement:
  "linesNotAdded (diffLines props) =
     filter (\<lambda>line. cli_merchandiseId line \<notin> dl_merchandiseId ` set (linesAdded (diffLines props)))
       (addingLines props)
   \<and> (\<forall>line \<in> set (addingLines props).
        line \<in> set (linesNotAdded (diffLines props)) \<longleftrightarrow>
        cli_merchandiseId line \<notin> dl_merchandiseId ` set (linesAdded (diffLines props)))"
  by (simp add: linesNotAdded_diffLines)

theorem diffLines_linesNotAdded_complement_witness:
  "linesNotAdded (diffLines
       \<lparr>addingLines = [\<lparr>cli_merchandiseId = ''variant/7'', cli_quantity = 1, cli_attributes = None\<rparr>,
                       \<lparr>cli_merchandiseId = ''variant/8'', cli_quantity = 1, cli_attributes = None\<rparr>],
        prevLines = NoEdges,
        currentLines = Edges [\<lparr>cl_id = ''line/1'', cl_quantity = 1,
                               cl_merchandise = \<lparr>merchandise_id = ''variant/7''\<rparr>\<rparr>]\<rparr>)
     = [\<lparr>cli_merchandiseId = ''variant/8'', cli_quantity = 1, cli_attributes = None\<rparr>]"
  using diffLines_linesNotAdded_complement
    [of "\<lparr>addingLines = [\<lparr>cli_merchandiseId = ''variant/7'', cli_quantity = 1, cli_attributes = None\<rparr>,
                       \<lparr>cli_merchandiseId = ''variant/8'', cli_quantity = 1, cli_attributes = None\<rparr>],
        prevLines = NoEdges,
        currentLines = Edges [\<lparr>cl_id = ''line/1'', cl_quantity = 1,
                               cl_merchandise = \<lparr>merchandise_id = ''variant/7''\<rparr>\<rparr>]\<rparr>"]
  by (simp add: linesAdded_diffLines toDiffingLine_def)

text \<open>
  Claim C9. When the merchandise ids of \<^verbatim>\<open>prev\<close> and \<^verbatim>\<open>next\<close> are disjoint, and in
  particular when \<^verbatim>\<open>prev\<close> is empty, \<^verbatim>\<open>diffLines\<close> classifies every line of \<^verbatim>\<open>next\<close> as
  added: \<^verbatim>\<open>linesAdded\<close> is \<^verbatim>\<open>next\<close>. When \<^verbatim>\<open>next\<close> is empty, \<^verbatim>\<open>linesAdded\<close> is empty.
\<close>

theorem diffLines_disjoint_all_added:
  fixes props :: DiffLinesProps
  defines "prev \<equiv> toDiffingLines (prevLines props)"
    and "next \<equiv> toDiffingLines (currentLines props)"
  shows "(dl_merchandiseId ` set prev \<inter> dl_merchandiseId ` set next = {}
            \<longrightarrow> linesAdded (diffLines props) = next)
       \<and> (prev = [] \<longrightarrow> linesAdded (diffLines props) = next)
       \<and> (next = [] \<longrightarrow> linesAdded (diffLines props) = [])"
proof (intro conjI impI)
  assume disj: "dl_merchandiseId ` set prev \<inter> dl_merchandiseId ` set next = {}"
  have "\<forall>x \<in> set prev. \<forall>y \<in> set next. \<not> comparer x y"
    using disj by (auto simp: comparer_def)
  then have "added (diff prev next comparer) = next"
    by (rule nothing_matches_added)
  then show "linesAdded (diffLines props) = next"
    by (simp add: linesAdded_diffLines prev_def next_def)
next
  assume "prev = []"
  then show "linesAdded (diffLines props) = next"
    by (simp add: linesAdded_diffLines prev_def next_def)
next
  assume "next = []"
  then show "linesAdded (diffLines props) = []"
    by (simp add: linesAdded_diffLines prev_def next_def)
qed

theorem diffLines_disjoint_all_added_witness:
  "linesAdded (diffLines
       \<lparr>addingLines = [],
        prevLines = Edges [\<lparr>cl_id = ''line/1'', cl_quantity = 1,
                            cl_merchandise = \<lparr>merchandise_id = ''variant/7''\<rparr>\<rparr>],
        currentLines = Edges [\<lparr>cl_id = ''line/1'', cl_quantity = 1,
                               cl_merchandise = \<lparr>merchandise_id = ''variant/8''\<rparr>\<rparr>,
                              \<lparr>cl_id = ''line/2'', cl_quantity = 2,
                               cl_merchandise = \<lparr>merchandise_id = ''variant/9''\<rparr>\<rparr>]\<rparr>)
     = [\<lparr>dl_id = ''line/1'', dl_quantity = 1, dl_merchandiseId = ''variant/8''\<rparr>,
        \<lparr>dl_id = ''line/2'', dl_quantity = 2, dl_merchandiseId = ''variant/9''\<rparr>]
   \<and> linesAdded (diffLines
       \<lparr>addingLines = [], prevLines = NoEdges,
        currentLines = Edges [\<lparr>cl_id = ''line/1'', cl_quantity = 1,
                               cl_merchandise = \<lparr>merchandise_id = ''variant/8''\<rparr>\<rparr>]\<rparr>)
     = [\<lparr>dl_id = ''line/1'', dl_quantity = 1, dl_merchandiseId = ''variant/8''\<rparr>]
   \<and> linesAdded (diffLines
       \<lparr>addingLines = [],
        prevLines = Edges [\<lparr>cl_id = ''line/1'', cl_quantity = 1,
                            cl_merchandise = \<lparr>merchandise_id = ''variant/7''\<rparr>\<rparr>],
        currentLines = Edges []\<rparr>) = []"
  using diffLines_disjoint_all_added
    [of "\<lparr>addingLines = [],
        prevLines = Edges [\<lparr>cl_id = ''line/1'', cl_quantity = 1,
                            cl_merchandise = \<lparr>merchandise_id = ''variant/7''\<rparr>\<rparr>],
        currentLines = Edges [\<lparr>cl_id = ''line/1'', cl_quantity = 1,
                               cl_merchandise = \<lparr>merchandise_id = ''variant/8''\<rparr>\<rparr>,
                              \<lparr>cl_id = ''line/2'', cl_quantity = 2,
                               cl_merchandise = \<lparr>merchandise_id = ''variant/9''\<rparr>\<rparr>]\<rparr>"]
    diffLines_disjoint_all_added
    [of "\<lparr>addingLines = [], prevLines = NoEdges,
        currentLines = Edges [\<lparr>cl_id = ''line/1'', cl_quantity = 1,
                               cl_merchandise = \<lparr>merchandise_id = ''variant/8''\<rparr>\<rparr>]\<rparr>"]
    diffLines_disjoint_all_added
    [of "\<lparr>addingLines = [],
        prevLines = Edges [\<lparr>cl_id = ''line/1'', cl_quantity = 1,
                            cl_merchandise = \<lparr>merchandise_id = ''variant/7''\<rparr>\<rparr>],
        currentLines = Edges []\<rparr>"]
  by (simp add: toDiffingLine_def)

section \<open>Properties of the add-lines action\<close>

text \<open>
  Claim C4. In both flows of the add-lines action (no cart in the session: cart-create;
  a cart in the session: query of the previous lines, then lines-add), when the mutation
  answers with a non-empty \<^verbatim>\<open>errors\<close> array the action returns exactly those errors and
  stops: the body has no event (no diff was computed), the response carries no header of
  the action, the session is unchanged (no cart id persisted), and no further call was
  made.
\<close>

theorem action_errors_short_circuit:
  assumes "parseField parse (request_formData request) ''lines'' = Inr lines"
    and "lines \<noteq> []"
    and "storefront context = Some sf"
    and "payload_errors payload = Some errors"
    and "errors \<noteq> []"
  shows "(\<not> truthy_string (session_cartId (session w)) \<longrightarrow>
           mutate_cartCreate sf \<lparr>input_lines = Some lines, input_buyerIdentity = None\<rparr>
             = Inr (Some payload) \<longrightarrow>
           fst (action parse isLocalPath randomUUID request context w)
             = Inr (Json \<lparr>body_event = None, body_errors = errors\<rparr> []) \<and>
           session (snd (action parse isLocalPath randomUUID request context w)) = session w \<and>
           calls (snd (action parse isLocalPath randomUUID request context w))
             = calls w @ [MutateCartCreate \<lparr>input_lines = Some lines, input_buyerIdentity = None\<rparr>])
       \<and> (\<forall>cartId prevCart.
             session_cartId (session w) = Some cartId \<longrightarrow> cartId \<noteq> [] \<longrightarrow>
             query_cart sf cartId = Inr (Some prevCart) \<longrightarrow>
             mutate_cartLinesAdd sf cartId lines = Inr (Some payload) \<longrightarrow>
             fst (action parse isLocalPath randomUUID request context w)
               = Inr (Json \<lparr>body_event = None, body_errors = errors\<rparr> []) \<and>
             session (snd (action parse isLocalPath randomUUID request context w)) = session w \<and>
             calls (snd (action parse isLocalPath randomUUID request context w))
               = calls w @ [QueryCartLines cartId, MutateCartLinesAdd cartId lines])"
  using assms
  by (simp add: action_def cartCreate_def getCartLines_def cartLinesAdd_def log_call_def)

theorem action_errors_short_circuit_witness:
  "action ex_parse ex_isLocalPath ''uuid-1''
      \<lparr>request_formData = [(''lines'', Str ''[ex_line]'')]\<rparr> (ex_context ex_rejected) (ex_world None)
     = (Inr (Json \<lparr>body_event = None, body_errors = [ex_error]\<rparr> []),
        \<lparr>session = \<lparr>session_cartId = None\<rparr>,
         calls = [MutateCartCreate \<lparr>input_lines = Some [ex_line], input_buyerIdentity = None\<rparr>]\<rparr>)
   \<and> action ex_parse ex_isLocalPath ''uuid-1''
      \<lparr>request_formData = [(''lines'', Str ''[ex_line]'')]\<rparr> (ex_context ex_rejected)
      (ex_world (Some ''gid://shopify/Cart/1''))
     = (Inr (Json \<lparr>body_event = None, body_errors = [ex_error]\<rparr> []),
        \<lparr>session = \<lparr>session_cartId = Some ''gid://shopify/Cart/1''\<rparr>,
         calls = [QueryCartLines ''gid://shopify/Cart/1'',
                  MutateCartLinesAdd ''gid://shopify/Cart/1'' [ex_line]]\<rparr>)"
proof -
  let ?req = "\<lparr>request_formData = [(''lines'', Str ''[ex_line]'')]\<rparr>"
  have p: "parseField ex_parse (request_formData ?req) ''lines'' = Inr [ex_line]"
    by (simp add: parseField_def get_def ex_parse_def)
  have n: "[ex_line] \<noteq> []" by simp
  have s: "storefront (ex_context ex_rejected) = Some (ex_storefront ex_rejected)"
    by (simp add: ex_context_def)
  have e: "payload_errors ex_rejected = Some [ex_error]" by (simp add: ex_rejected_def)
  have ne: "[ex_error] \<noteq> []" by simp
  note A = action_errors_short_circuit [OF p n s e ne,
      of "ex_world None" ex_isLocalPath "''uuid-1''"]
  note B = action_errors_short_circuit [OF p n s e ne,
      of "ex_world (Some ''gid://shopify/Cart/1'')" ex_isLocalPath "''uuid-1''"]
  have a: "action ex_parse ex_isLocalPath ''uuid-1'' ?req (ex_context ex_rejected) (ex_world None)
     = (Inr (Json \<lparr>body_event = None, body_errors = [ex_error]\<rparr> []),
        \<lparr>session = \<lparr>session_cartId = None\<rparr>,
         calls = [MutateCartCreate \<lparr>input_lines = Some [ex_line], input_buyerIdentity = None\<rparr>]\<rparr>)"
    using A
    by (cases "action ex_parse ex_isLocalPath ''uuid-1'' ?req (ex_context ex_rejected) (ex_world None)")
      (simp add: ex_world_def ex_storefront_def)
  have b: "action ex_parse ex_isLocalPath ''uuid-1'' ?req (ex_context ex_rejected)
        (ex_world (Some ''gid://shopify/Cart/1''))
     = (Inr (Json \<lparr>body_event = None, body_errors = [ex_error]\<rparr> []),
        \<lparr>session = \<lparr>session_cartId = Some ''gid://shopify/Cart/1''\<rparr>,
         calls = [QueryCartLines ''gid://shopify/Cart/1'',
                  MutateCartLinesAdd ''gid://shopify/Cart/1'' [ex_line]]\<rparr>)"
    using B
    by (cases "action ex_parse ex_isLocalPath ''uuid-1'' ?req (ex_context ex_rejected)
        (ex_world (Some ''gid://shopify/Cart/1''))")
      (simp add: ex_world_def ex_storefront_def)
  from a b show ?thesis by simp
qed

lemma linesAddResponse_headers:
  "lar_cart props = Some c \<Longrightarrow>
     \<exists>r. linesAddResponse isLocalPath randomUUID props = Inr r \<and>
         response_headers r = lar_headers props"
  by (simp add: linesAddResponse_def split_def Let_def split: option.splits)

lemma linesAddResponse_redirect:
  "get (lar_formData props) ''redirectTo'' = Some (Str redirectTo) \<Longrightarrow> isLocalPath redirectTo \<Longrightarrow>
     linesAddResponse isLocalPath randomUUID props = Inr (Redirect redirectTo (lar_headers props))"
  by (simp add: linesAddResponse_def)

text \<open>The three ways through the action once the lines are decoded and not empty.\<close>

lemma action_flowA_success:
  assumes "parseField parse (request_formData request) ''lines'' = Inr lines"
    and "lines \<noteq> []"
    and "\<not> truthy_string (session_cartId (session w))"
    and "storefront context = Some sf"
    and "mutate_cartCreate sf \<lparr>input_lines = Some lines, input_buyerIdentity = None\<rparr>
              = Inr (Some payload)"
    and "\<not> hasErrors (payload_errors payload)" and "payload_cart payload = Some c"
  shows "action parse isLocalPath randomUUID request context w =
     (linesAddResponse isLocalPath randomUUID
        \<lparr>lar_prevCart = None, lar_cart = Some c, lar_lines = lines,
         lar_formData = request_formData request,
         lar_headers = [(''Set-Cookie'',
            commit context ((session w)\<lparr>session_cartId := Some (cart_id c)\<rparr>))]\<rparr>,
      w\<lparr>calls := calls w @ [MutateCartCreate \<lparr>input_lines = Some lines, input_buyerIdentity = None\<rparr>],
        session := (session w)\<lparr>session_cartId := Some (cart_id c)\<rparr>\<rparr>)"
  using assms
  by (simp add: action_def cartCreate_def log_call_def session_set_cartId_def set_header_def
      Let_def)

lemma action_flowA_errors:
  assumes "parseField parse (request_formData request) ''lines'' = Inr lines"
    and "lines \<noteq> []"
    and "\<not> truthy_string (session_cartId (session w))"
    and "storefront context = Some sf"
    and "mutate_cartCreate sf \<lparr>input_lines = Some lines, input_buyerIdentity = None\<rparr>
              = Inr (Some payload)"
    and "hasErrors (payload_errors payload)"
  shows "action parse isLocalPath randomUUID request context w =
     (Inr (Json \<lparr>body_event = None, body_errors = the (payload_errors payload)\<rparr> []),
      w\<lparr>calls := calls w @ [MutateCartCreate \<lparr>input_lines = Some lines, input_buyerIdentity = None\<rparr>]\<rparr>)"
  using assms
  by (simp add: action_def cartCreate_def log_call_def Let_def)

lemma action_flowB_success:
  assumes "parseField parse (request_formData request) ''lines'' = Inr lines"
    and "lines \<noteq> []"
    and "session_cartId (session w) = Some cartId" and "cartId \<noteq> []"
    and "storefront context = Some sf"
    and "query_cart sf cartId = Inr (Some prevCart)"
    and "mutate_cartLinesAdd sf cartId lines = Inr (Some payload)"
    and "\<not> hasErrors (payload_errors payload)"
  shows "action parse isLocalPath randomUUID request context w =
     (linesAddResponse isLocalPath randomUUID
        \<lparr>lar_prevCart = Some prevCart, lar_cart = payload_cart payload, lar_lines = lines,
         lar_formData = request_formData request, lar_headers = []\<rparr>,
      w\<lparr>calls := calls w @ [QueryCartLines cartId, MutateCartLinesAdd cartId lines]\<rparr>)"
  using assms
  by (simp add: action_def getCartLines_def cartLinesAdd_def log_call_def Let_def)

lemma action_cart_create:
  assumes "get (request_formData request) ''cartAction'' = Some (Str ''ADD_TO_CART'')"
    and "parseField (env_parseLines env) (request_formData request) ''lines'' = Inr lines"
    and "lines \<noteq> []"
    and "\<not> truthy_string (session_cartId (session w))"
    and "\<forall>input. env_data env (CartCreate input) = Inr result"
    and "payload_cart result = Some c"
  shows "session_cartId (session (snd (action_cart env request w))) = Some (cart_id c) \<and>
         (\<exists>r. fst (action_cart env request w) = Inr r \<and>
              map_of (resp_headers r) ''Set-Cookie''
                = Some (env_commit env ((session w)\<lparr>session_cartId := Some (cart_id c)\<rparr>)) \<and>
              resp_errors r = payload_errors result)"
  using assms
  by (auto simp add: action_cart_def dispatch_def call_data_def persist_cartId_def log_call_def
      session_set_cartId_def set_header_def Let_def update_conv' split: option.splits)

text \<open>
  Claim C6, as amended. With no cart id in the session, a cart-create that succeeds makes
  both actions store the id of the new cart in the session and put the value of
  \<^verbatim>\<open>session.commit()\<close>, taken after the store, in the \<^verbatim>\<open>Set-Cookie\<close> header of the
  response. In the add-lines action this happens on success only: when the create answers
  with errors the session is unchanged and the response has no header. The cart route
  does not look at the errors of the create: it stores the id of the cart the create
  returned, whether or not errors came with it.
\<close>

theorem create_persists_cartId:
  "(parseField parse (request_formData request) ''lines'' = Inr lines \<longrightarrow> lines \<noteq> [] \<longrightarrow>
    \<not> truthy_string (session_cartId (session w)) \<longrightarrow> storefront context = Some sf \<longrightarrow>
    mutate_cartCreate sf \<lparr>input_lines = Some lines, input_buyerIdentity = None\<rparr>
      = Inr (Some payload) \<longrightarrow>
      (\<not> hasErrors (payload_errors payload) \<longrightarrow> payload_cart payload = Some c \<longrightarrow>
         session_cartId (session (snd (action parse isLocalPath randomUUID request context w)))
           = Some (cart_id c) \<and>
         (\<exists>r. fst (action parse isLocalPath randomUUID request context w) = Inr r \<and>
              response_headers r
                = [(''Set-Cookie'',
                    commit context ((session w)\<lparr>session_cartId := Some (cart_id c)\<rparr>))]))
    \<and> (hasErrors (payload_errors payload) \<longrightarrow>
         session (snd (action parse isLocalPath randomUUID request context w)) = session w \<and>
         (\<exists>r. fst (action parse isLocalPath randomUUID request context w) = Inr r \<and>
              response_headers r = [])))
   \<and> (get (request_formData request') ''cartAction'' = Some (Str ''ADD_TO_CART'') \<longrightarrow>
      parseField (env_parseLines env) (request_formData request') ''lines'' = Inr lines' \<longrightarrow>
      lines' \<noteq> [] \<longrightarrow> \<not> truthy_string (session_cartId (session w')) \<longrightarrow>
      (\<forall>input. env_data env (CartCreate input) = Inr result) \<longrightarrow>
      payload_cart result = Some c' \<longrightarrow>
        session_cartId (session (snd (action_cart env request' w'))) = Some (cart_id c') \<and>
        (\<exists>r. fst (action_cart env request' w') = Inr r \<and>
             map_of (resp_headers r) ''Set-Cookie''
               = Some (env_commit env ((session w')\<lparr>session_cartId := Some (cart_id c')\<rparr>)) \<and>
             resp_errors r = payload_errors result))"
proof (intro conjI impI)
  assume a: "parseField parse (request_formData request) ''lines'' = Inr lines" "lines \<noteq> []"
    "\<not> truthy_string (session_cartId (session w))" "storefront context = Some sf"
    "mutate_cartCreate sf \<lparr>input_lines = Some lines, input_buyerIdentity = None\<rparr>
      = Inr (Some payload)"
  {
    assume ok: "\<not> hasErrors (payload_errors payload)" and c: "payload_cart payload = Some c"
    note eq = action_flowA_success [OF a ok c, of isLocalPath randomUUID]
    show "session_cartId (session (snd (action parse isLocalPath randomUUID request context w)))
              = Some (cart_id c)"
      by (simp add: eq)
    show "\<exists>r. fst (action parse isLocalPath randomUUID request context w) = Inr r \<and>
                 response_headers r
                   = [(''Set-Cookie'',
                       commit context ((session w)\<lparr>session_cartId := Some (cart_id c)\<rparr>))]"
      using linesAddResponse_headers
        [of "\<lparr>lar_prevCart = None, lar_cart = Some c, lar_lines = lines,
              lar_formData = request_formData request,
              lar_headers = [(''Set-Cookie'',
                commit context ((session w)\<lparr>session_cartId := Some (cart_id c)\<rparr>))]\<rparr>"
            c isLocalPath randomUUID]
      by (simp add: eq)
  }
  {
    assume e: "hasErrors (payload_errors payload)"
    note eq = action_flowA_errors [OF a e, of isLocalPath randomUUID]
    show "session (snd (action parse isLocalPath randomUUID request context w)) = session w"
      by (simp add: eq)
    show "\<exists>r. fst (action parse isLocalPath randomUUID request context w) = Inr r \<and>
                 response_headers r = []"
      by (simp add: eq)
  }
next
  assume b: "get (request_formData request') ''cartAction'' = Some (Str ''ADD_TO_CART'')"
    "parseField (env_parseLines env) (request_formData request') ''lines'' = Inr lines'"
    "lines' \<noteq> []" "\<not> truthy_string (session_cartId (session w'))"
    "\<forall>input. env_data env (CartCreate input) = Inr result"
    "payload_cart result = Some c'"
  note r = action_cart_create [OF b]
  show "session_cartId (session (snd (action_cart env request' w'))) = Some (cart_id c')"
    using r by simp
  show "\<exists>r. fst (action_cart env request' w') = Inr r \<and>
             map_of (resp_headers r) ''Set-Cookie''
               = Some (env_commit env ((session w')\<lparr>session_cartId := Some (cart_id c')\<rparr>)) \<and>
             resp_errors r = payload_errors result"
    using r by simp
qed

theorem create_persists_cartId_witness:
  "session_cartId (session (snd (action ex_parse ex_isLocalPath ''uuid-1''
      \<lparr>request_formData = [(''lines'', Str ''[ex_line]'')]\<rparr> (ex_context ex_accepted) (ex_world None))))
     = Some ''gid://shopify/Cart/1''
   \<and> (\<exists>r. fst (action ex_parse ex_isLocalPath ''uuid-1''
      \<lparr>request_formData = [(''lines'', Str ''[ex_line]'')]\<rparr> (ex_context ex_accepted) (ex_world None))
        = Inr r \<and> response_headers r = [(''Set-Cookie'', ''cart=gid://shopify/Cart/1'')])
   \<and> session (snd (action ex_parse ex_isLocalPath ''uuid-1''
      \<lparr>request_formData = [(''lines'', Str ''[ex_line]'')]\<rparr> (ex_context ex_rejected) (ex_world None)))
     = \<lparr>session_cartId = None\<rparr>
   \<and> session_cartId (session (snd (action_cart (ex_env ex_accepted)
      \<lparr>request_formData = [(''cartAction'', Str ''ADD_TO_CART''), (''lines'', Str ''[ex_line]'')]\<rparr>
      (ex_world None))))
     = Some ''gid://shopify/Cart/1''"
proof -
  let ?req = "\<lparr>request_formData = [(''lines'', Str ''[ex_line]'')]\<rparr>"
  let ?req' = "\<lparr>request_formData = [(''cartAction'', Str ''ADD_TO_CART''),
                                       (''lines'', Str ''[ex_line]'')]\<rparr>"
  note A = create_persists_cartId
    [of ex_parse ?req "[ex_line]" "ex_world None :: Call World" "ex_context ex_accepted"
        "ex_storefront ex_accepted" ex_accepted ex_cart ex_isLocalPath "''uuid-1''"
        ?req' "ex_env ex_accepted" "[ex_line]" "ex_world None" ex_accepted ex_cart]
  note B = create_persists_cartId
    [of ex_parse ?req "[ex_line]" "ex_world None :: Call World" "ex_context ex_rejected"
        "ex_storefront ex_rejected" ex_rejected ex_cart ex_isLocalPath "''uuid-1''"
        ?req' "ex_env ex_accepted" "[ex_line]" "ex_world None" ex_accepted ex_cart]
  have 1: "session_cartId (session (snd (action ex_parse ex_isLocalPath ''uuid-1''
      ?req (ex_context ex_accepted) (ex_world None)))) = Some ''gid://shopify/Cart/1''
   \<and> (\<exists>r. fst (action ex_parse ex_isLocalPath ''uuid-1'' ?req (ex_context ex_accepted) (ex_world None))
        = Inr r \<and> response_headers r = [(''Set-Cookie'', ''cart=gid://shopify/Cart/1'')])
   \<and> session_cartId (session (snd (action_cart (ex_env ex_accepted) ?req' (ex_world None))))
     = Some ''gid://shopify/Cart/1''"
    using A
    by (simp add: parseField_def get_def ex_parse_def ex_context_def ex_storefront_def
        ex_accepted_def ex_world_def ex_cart_def ex_env_def ex_commit_def)
  have 2: "session (snd (action ex_parse ex_isLocalPath ''uuid-1''
      ?req (ex_context ex_rejected) (ex_world None))) = \<lparr>session_cartId = None\<rparr>"
    using B
    by (simp add: parseField_def get_def ex_parse_def ex_context_def ex_storefront_def
        ex_rejected_def ex_world_def)
  from 1 2 show ?thesis by simp
qed

theorem cart_route_persists_with_errors:
  "action_cart (ex_env ex_partial)
      \<lparr>request_formData = [(''cartAction'', Str ''ADD_TO_CART''), (''lines'', Str ''[ex_line]'')]\<rparr>
      (ex_world None)
     = (Inr \<lparr>resp_cart = Some ex_cart, resp_errors = Some [ex_error], resp_status = 200,
             resp_headers = [(''Set-Cookie'', ''cart=gid://shopify/Cart/1'')]\<rparr>,
        \<lparr>session = \<lparr>session_cartId = Some ''gid://shopify/Cart/1''\<rparr>,
         calls = [CartCreate \<lparr>input_lines = Some [ex_line], input_buyerIdentity = None\<rparr>]\<rparr>)"
  by (simp add: action_cart_def dispatch_def call_data_def persist_cartId_def log_call_def
      session_set_cartId_def set_header_def Let_def get_def parseField_def ex_env_def
      ex_parse_def ex_partial_def ex_world_def ex_cart_def ex_commit_def)

text \<open>
  Claim C10, as amended. When the form data hold a string \<^verbatim>\<open>redirectTo\<close> that is a
  local path and the action reaches its response step (decoded, non-empty lines, a
  storefront client, a mutation answer without errors), the action returns a redirect to
  that path with the headers accumulated so far (\<^verbatim>\<open>Set-Cookie\<close> after a create, none
  otherwise), and reconciliation is skipped: the response has no body, so neither a
  \<^verbatim>\<open>lines_add\<close> event nor \<^verbatim>\<open>LINE_NOT_ADDED\<close> errors, and it does not depend on the
  identifier drawn for the event or on the carts.
\<close>

theorem action_redirect_skips_reconciliation:
  assumes "get (request_formData request) ''redirectTo'' = Some (Str redirectTo)"
    and "isLocalPath redirectTo"
    and "parseField parse (request_formData request) ''lines'' = Inr lines"
    and "lines \<noteq> []"
    and "storefront context = Some sf"
    and "\<not> hasErrors (payload_errors payload)"
  shows "(\<forall>c. \<not> truthy_string (session_cartId (session w)) \<longrightarrow>
            mutate_cartCreate sf \<lparr>input_lines = Some lines, input_buyerIdentity = None\<rparr>
              = Inr (Some payload) \<longrightarrow>
            payload_cart payload = Some c \<longrightarrow>
            fst (action parse isLocalPath randomUUID request context w)
              = Inr (Redirect redirectTo
                  [(''Set-Cookie'',
                    commit context ((session w)\<lparr>session_cartId := Some (cart_id c)\<rparr>))]))
       \<and> (\<forall>cartId prevCart.
            session_cartId (session w) = Some cartId \<longrightarrow> cartId \<noteq> [] \<longrightarrow>
            query_cart sf cartId = Inr (Some prevCart) \<longrightarrow>
            mutate_cartLinesAdd sf cartId lines = Inr (Some payload) \<longrightarrow>
            fst (action parse isLocalPath randomUUID request context w)
              = Inr (Redirect redirectTo []))"
proof (intro conjI allI impI)
  fix c
  assume "\<not> truthy_string (session_cartId (session w))"
    and "mutate_cartCreate sf \<lparr>input_lines = Some lines, input_buyerIdentity = None\<rparr>
              = Inr (Some payload)"
    and "payload_cart payload = Some c"
  then show "fst (action parse isLocalPath randomUUID request context w)
              = Inr (Redirect redirectTo
                  [(''Set-Cookie'',
                    commit context ((session w)\<lparr>session_cartId := Some (cart_id c)\<rparr>))])"
    using assms by (simp add: action_flowA_success linesAddResponse_redirect)
next
  fix cartId prevCart
  assume "session_cartId (session w) = Some cartId" and "cartId \<noteq> []"
    and "query_cart sf cartId = Inr (Some prevCart)"
    and "mutate_cartLinesAdd sf cartId lines = Inr (Some payload)"
  then show "fst (action parse isLocalPath randomUUID request context w)
              = Inr (Redirect redirectTo [])"
    using assms by (simp add: action_flowB_success linesAddResponse_redirect)
qed

theorem action_redirect_skips_reconciliation_witness:
  "fst (action ex_parse ex_isLocalPath ''uuid-1''
      \<lparr>request_formData = [(''lines'', Str ''[ex_line]''), (''redirectTo'', Str ''/products/hat'')]\<rparr>
      (ex_context ex_accepted) (ex_world None))
     = Inr (Redirect ''/products/hat'' [(''Set-Cookie'', ''cart=gid://shopify/Cart/1'')])
   \<and> fst (action ex_parse ex_isLocalPath ''uuid-1''
      \<lparr>request_formData = [(''lines'', Str ''[ex_line]''), (''redirectTo'', Str ''/products/hat'')]\<rparr>
      (ex_context ex_accepted) (ex_world (Some ''gid://shopify/Cart/1'')))
     = Inr (Redirect ''/products/hat'' [])"
proof -
  let ?req = "\<lparr>request_formData = [(''lines'', Str ''[ex_line]''),
                                      (''redirectTo'', Str ''/products/hat'')]\<rparr>"
  have r: "get (request_formData ?req) ''redirectTo'' = Some (Str ''/products/hat'')"
    by (simp add: get_def)
  have l: "ex_isLocalPath ''/products/hat''" by (simp add: ex_isLocalPath_def)
  have p: "parseField ex_parse (request_formData ?req) ''lines'' = Inr [ex_line]"
    by (simp add: parseField_def get_def ex_parse_def)
  have n: "[ex_line] \<noteq> []" by simp
  have s: "storefront (ex_context ex_accepted) = Some (ex_storefront ex_accepted)"
    by (simp add: ex_context_def)
  have e: "\<not> hasErrors (payload_errors ex_accepted)" by (simp add: ex_accepted_def)
  note A = action_redirect_skips_reconciliation
    [where isLocalPath = ex_isLocalPath and redirectTo = "''/products/hat''"
       and w = "ex_world None" and randomUUID = "''uuid-1''", OF r l p n s e]
  note B = action_redirect_skips_reconciliation
    [where isLocalPath = ex_isLocalPath and redirectTo = "''/products/hat''"
       and w = "ex_world (Some ''gid://shopify/Cart/1'')" and randomUUID = "''uuid-1''",
     OF r l p n s e]
  have a: "fst (action ex_parse ex_isLocalPath ''uuid-1'' ?req (ex_context ex_accepted) (ex_world None))
     = Inr (Redirect ''/products/hat'' [(''Set-Cookie'', ''cart=gid://shopify/Cart/1'')])"
    using A
    by (simp add: ex_world_def ex_storefront_def ex_accepted_def ex_context_def ex_commit_def
        ex_cart_def)
  have b: "fst (action ex_parse ex_isLocalPath ''uuid-1'' ?req (ex_context ex_accepted)
        (ex_world (Some ''gid://shopify/Cart/1'')))
     = Inr (Redirect ''/products/hat'' [])"
    using B by (simp add: ex_world_def ex_storefront_def)
  from a b show ?thesis by simp
qed

theorem action_redirect_after_errors:
  "ex_isLocalPath ''/products/hat''
   \<and> fst (action ex_parse ex_isLocalPath ''uuid-1''
      \<lparr>request_formData = [(''lines'', Str ''[ex_line]''), (''redirectTo'', Str ''/products/hat'')]\<rparr>
      (ex_context ex_rejected) (ex_world None))
     = Inr (Json \<lparr>body_event = None, body_errors = [ex_error]\<rparr> [])"
  by (simp add: action_def cartCreate_def log_call_def Let_def parseField_def get_def
      ex_parse_def ex_isLocalPath_def ex_context_def ex_storefront_def ex_rejected_def
      ex_world_def)

section \<open>Properties of the cart route action\<close>

text \<open>The preconditions the cart route enforces before any call, and the one of the add-lines action.\<close>

lemma action_cart_preconditions:
  assumes "get (request_formData request) ''cartAction'' = cartAction"
  shows "\<not> truthy cartAction \<Longrightarrow>
           action_cart env request w = (Inl (InvariantFailed ''No cartAction defined''), w)"
    and "cartAction = Some (Str ''ADD_TO_CART'') \<Longrightarrow>
         parseField (env_parseLines env) (request_formData request) ''lines'' = Inr [] \<Longrightarrow>
           action_cart env request w = (Inl (InvariantFailed ''No lines to add''), w)"
    and "cartAction = Some (Str ''UPDATE_CART'') \<Longrightarrow>
         parseField (env_parseLines env) (request_formData request) ''lines'' = Inr [] \<Longrightarrow>
           action_cart env request w = (Inl (InvariantFailed ''No lines to update''), w)"
    and "cartAction = Some (Str ''REMOVE_FROM_CART'') \<Longrightarrow>
         parseField (env_parseIds env) (request_formData request) ''linesIds'' = Inr [] \<Longrightarrow>
           action_cart env request w = (Inl (InvariantFailed ''No lines to remove''), w)"
    and "cartAction = Some (Str ''UPDATE_DISCOUNT'') \<Longrightarrow>
         \<not> truthy_string (session_cartId (session w)) \<Longrightarrow>
           action_cart env request w = (Inl (InvariantFailed ''Missing cartId''), w)"
    and "truthy cartAction \<Longrightarrow>
         cartAction \<notin> Some ` Str ` {''ADD_TO_CART'', ''REMOVE_FROM_CART'', ''UPDATE_CART'',
                                     ''UPDATE_DISCOUNT'', ''UPDATE_BUYER_IDENTITY''} \<Longrightarrow>
           action_cart env request w
             = (Inl (InvariantFailed (String cartAction @ '' cart action is not defined'')), w)"
  using assms by (auto simp add: action_cart_def dispatch_def Let_def)

lemma parseField_absent:
  "\<not> truthy (get formData name) \<Longrightarrow> parseField parse formData name = Inr []"
  by (simp add: parseField_def)

lemma action_no_lines:
  "parseField parse (request_formData request) ''lines'' = Inr [] \<Longrightarrow>
     action parse isLocalPath randomUUID request context w
       = (Inl (InvariantFailed ''No lines to add''), w)"
  by (simp add: action_def Let_def)

text \<open>
  A removal or an update with lines to work on goes to the data layer with whatever cart
  id the session holds, also with none.
\<close>

lemma action_cart_remove_calls:
  assumes "get (request_formData request) ''cartAction'' = Some (Str ''REMOVE_FROM_CART'')"
    and "parseField (env_parseIds env) (request_formData request) ''linesIds'' = Inr lineIds"
    and "lineIds \<noteq> []"
  shows "calls (snd (action_cart env request w))
           = calls w @ [CartRemove (session_cartId (session w)) lineIds]"
  using assms
  by (auto simp add: action_cart_def dispatch_def call_data_def log_call_def Let_def
      split: sum.splits option.splits)

lemma action_cart_update_calls:
  assumes "get (request_formData request) ''cartAction'' = Some (Str ''UPDATE_CART'')"
    and "parseField (env_parseLines env) (request_formData request) ''lines'' = Inr updateLines"
    and "updateLines \<noteq> []"
  shows "calls (snd (action_cart env request w))
           = calls w @ [CartUpdate (session_cartId (session w)) updateLines]"
  using assms
  by (auto simp add: action_cart_def dispatch_def call_data_def log_call_def Let_def
      split: sum.splits option.splits)

text \<open>
  Claim C5, at the input where the code departs from it. With no cart id in the session,
  a removal with a non-empty \<^verbatim>\<open>linesIds\<close> and an update with a non-empty \<^verbatim>\<open>lines\<close>
  do not abort: the action calls \<^verbatim>\<open>cartRemove\<close>, respectively \<^verbatim>\<open>cartUpdate\<close>, with
  an undefined cart id and answers 200 with what the call returned. Only the discount
  branch checks the cart id.
\<close>

theorem action_cart_without_cartId_calls_remote:
  "action_cart (ex_env ex_accepted)
      \<lparr>request_formData = [(''cartAction'', Str ''REMOVE_FROM_CART''),
                           (''linesIds'', Str ''[ex_line_id]'')]\<rparr> (ex_world None)
     = (Inr \<lparr>resp_cart = Some ex_cart, resp_errors = Some [], resp_status = 200,
             resp_headers = []\<rparr>,
        \<lparr>session = \<lparr>session_cartId = None\<rparr>,
         calls = [CartRemove None [''gid://shopify/CartLine/1'']]\<rparr>)
   \<and> action_cart (ex_env ex_accepted)
      \<lparr>request_formData = [(''cartAction'', Str ''UPDATE_CART''),
                           (''lines'', Str ''[ex_line]'')]\<rparr> (ex_world None)
     = (Inr \<lparr>resp_cart = Some ex_cart, resp_errors = Some [], resp_status = 200,
             resp_headers = []\<rparr>,
        \<lparr>session = \<lparr>session_cartId = None\<rparr>,
         calls = [CartUpdate None [ex_line]]\<rparr>)"
  by (simp add: action_cart_def dispatch_def call_data_def log_call_def Let_def get_def
      parseField_def ex_env_def ex_parse_def ex_accepted_def ex_world_def)

section \<open>Properties of the event consumers\<close>

lemma runEffects_snoc:
  "runEffects effect (obs @ [e]) = effect e (runEffects effect obs)"
  by (simp add: runEffects_def)

lemma observedEvents_snoc:
  "observedEvents (obs @ [e]) = observedEvents obs @ (case e of None \<Rightarrow> [] | Some ev \<Rightarrow> [ev])"
  by (simp add: observedEvents_def List.map_filter_def split: option.splits)

lemma remdups_adj_snoc:
  "remdups_adj (xs @ [x]) =
     (if xs \<noteq> [] \<and> last xs = x then remdups_adj xs else remdups_adj xs @ [x])"
proof (cases "xs \<noteq> [] \<and> last xs = x")
  case True
  then show ?thesis by (simp add: remdups_adj_append'')
next
  case False
  then have "remdups_adj (xs @ [x]) = remdups_adj xs @ remdups_adj [x]"
    by (intro remdups_adj_append') auto
  with False show ?thesis by auto
qed

lemma form_step:
  "CartLinesAddForm_effect cb (Some ev) st =
     (if event_id ev = [] \<or> lastEventId st = Some (event_id ev) then st
      else \<lparr>lastEventId = Some (event_id ev),
            delivered = (if cb then delivered st @ [ev] else delivered st)\<rparr>)"
  by (auto simp add: CartLinesAddForm_effect_def)

lemma form_step_None: "CartLinesAddForm_effect cb None st = st"
  by (simp add: CartLinesAddForm_effect_def)

lemma hook_step:
  "useCartLinesAdd_effect cb (Some ev) st =
     (if lastEventId st = Some (event_id ev) then st
      else \<lparr>lastEventId = Some (event_id ev),
            delivered = (if cb then delivered st @ [ev] else delivered st)\<rparr>)"
  by (simp add: useCartLinesAdd_effect_def)

lemma hook_step_None: "useCartLinesAdd_effect cb None st = st"
  by (simp add: useCartLinesAdd_effect_def)

text \<open>The cell holds the id of the last delivered event.\<close>

lemma form_lastEventId:
  "lastEventId (runEffects (CartLinesAddForm_effect True) obs)
     = lastDeliveredId (runEffects (CartLinesAddForm_effect True) obs)"
proof (induction obs rule: rev_induct)
  case Nil
  then show ?case by (simp add: runEffects_def initialConsumer_def lastDeliveredId_def)
next
  case (snoc e obs)
  then show ?case
    by (cases e)
      (auto simp add: runEffects_snoc form_step form_step_None lastDeliveredId_def
        split: list.splits)
qed

lemma hook_lastEventId:
  "lastEventId (runEffects (useCartLinesAdd_effect True) obs)
     = lastDeliveredId (runEffects (useCartLinesAdd_effect True) obs)"
proof (induction obs rule: rev_induct)
  case Nil
  then show ?case by (simp add: runEffects_def initialConsumer_def lastDeliveredId_def)
next
  case (snoc e obs)
  then show ?case
    by (cases e)
      (auto simp add: runEffects_snoc hook_step hook_step_None lastDeliveredId_def
        split: list.splits)
qed

lemma lastDeliveredId_last:
  "lastDeliveredId st =
     (if delivered st = [] then None else Some (last (map event_id (delivered st))))"
  by (cases "delivered st") (simp_all add: lastDeliveredId_def last_map)

text \<open>The deliveries are the observed ids with each run of equal ids contracted to one.\<close>

lemma form_delivered_ids:
  "map event_id (delivered (runEffects (CartLinesAddForm_effect True) obs))
     = remdups_adj (formObservedIds obs)"
proof (induction obs rule: rev_induct)
  case Nil
  then show ?case
    by (simp add: runEffects_def initialConsumer_def formObservedIds_def observedEvents_def
        List.map_filter_def)
next
  case (snoc e obs)
  let ?st = "runEffects (CartLinesAddForm_effect True) obs"
  have l: "lastEventId ?st =
      (if formObservedIds obs = [] then None else Some (last (formObservedIds obs)))"
    using snoc
    by (simp add: form_lastEventId lastDeliveredId_last last_remdups_adj del: map_is_Nil_conv)
       (metis map_is_Nil_conv remdups_adj_Nil_iff)
  show ?case
  proof (cases e)
    case None
    then show ?thesis
      using snoc
      by (simp add: runEffects_snoc form_step_None formObservedIds_def observedEvents_snoc)
  next
    case (Some ev)
    then show ?thesis
      using snoc l
      by (auto simp add: runEffects_snoc form_step formObservedIds_def
          observedEvents_snoc remdups_adj_snoc)
  qed
qed

lemma hook_delivered_ids:
  "map event_id (delivered (runEffects (useCartLinesAdd_effect True) obs))
     = remdups_adj (hookObservedIds obs)"
proof (induction obs rule: rev_induct)
  case Nil
  then show ?case
    by (simp add: runEffects_def initialConsumer_def hookObservedIds_def observedEvents_def
        List.map_filter_def)
next
  case (snoc e obs)
  let ?st = "runEffects (useCartLinesAdd_effect True) obs"
  have l: "lastEventId ?st =
      (if hookObservedIds obs = [] then None else Some (last (hookObservedIds obs)))"
    using snoc
    by (simp add: hook_lastEventId lastDeliveredId_last last_remdups_adj del: map_is_Nil_conv)
       (metis map_is_Nil_conv remdups_adj_Nil_iff)
  show ?case
  proof (cases e)
    case None
    then show ?thesis
      using snoc
      by (simp add: runEffects_snoc hook_step_None hookObservedIds_def observedEvents_snoc)
  next
    case (Some ev)
    then show ?thesis
      using snoc l
      by (auto simp add: runEffects_snoc hook_step hookObservedIds_def
          observedEvents_snoc remdups_adj_snoc)
  qed
qed

text \<open>
  Claim C7. In \<^verbatim>\<open>CartLinesAddForm\<close> and in \<^verbatim>\<open>useCartLinesAdd\<close>, after any sequence of
  observations, a newly observed event (with, for the form, a non-empty id) is delivered
  to \<^verbatim>\<open>onSuccess\<close> if and only if its id differs from the id of the last delivered
  event; observing the same event again changes nothing; the ids delivered are the ids
  observed with every run of equal ids contracted to one. So when ids are unique per
  response, that is when an id is not observed again after another id was (the observed
  ids without their adjacent repetitions are distinct), \<^verbatim>\<open>onSuccess\<close> is called at most
  once for each event id.
\<close>

theorem event_delivered_once:
  fixes observations :: "LinesAddEvent option list" and ev :: LinesAddEvent
  defines "form \<equiv> runEffects (CartLinesAddForm_effect True) observations"
    and "hook \<equiv> runEffects (useCartLinesAdd_effect True) observations"
  shows "(event_id ev \<noteq> [] \<longrightarrow>
            delivered (CartLinesAddForm_effect True (Some ev) form)
              = (if lastDeliveredId form = Some (event_id ev) then delivered form
                 else delivered form @ [ev]))
       \<and> delivered (useCartLinesAdd_effect True (Some ev) hook)
           = (if lastDeliveredId hook = Some (event_id ev) then delivered hook
              else delivered hook @ [ev])
       \<and> CartLinesAddForm_effect True (Some ev) (CartLinesAddForm_effect True (Some ev) form)
           = CartLinesAddForm_effect True (Some ev) form
       \<and> useCartLinesAdd_effect True (Some ev) (useCartLinesAdd_effect True (Some ev) hook)
           = useCartLinesAdd_effect True (Some ev) hook
       \<and> map event_id (delivered form) = remdups_adj (formObservedIds observations)
       \<and> map event_id (delivered hook) = remdups_adj (hookObservedIds observations)
       \<and> (distinct (remdups_adj (formObservedIds observations))
            \<longrightarrow> distinct (map event_id (delivered form)))
       \<and> (distinct (remdups_adj (hookObservedIds observations))
            \<longrightarrow> distinct (map event_id (delivered hook)))"
proof -
  have f: "lastEventId form = lastDeliveredId form"
    unfolding form_def by (rule form_lastEventId)
  have h: "lastEventId hook = lastDeliveredId hook"
    unfolding hook_def by (rule hook_lastEventId)
  have 1: "event_id ev \<noteq> [] \<longrightarrow>
            delivered (CartLinesAddForm_effect True (Some ev) form)
              = (if lastDeliveredId form = Some (event_id ev) then delivered form
                 else delivered form @ [ev])"
    using f by (simp add: form_step)
  have 2: "delivered (useCartLinesAdd_effect True (Some ev) hook)
           = (if lastDeliveredId hook = Some (event_id ev) then delivered hook
              else delivered hook @ [ev])"
    using h by (simp add: hook_step)
  have 3: "CartLinesAddForm_effect True (Some ev) (CartLinesAddForm_effect True (Some ev) form)
           = CartLinesAddForm_effect True (Some ev) form"
    by (simp add: form_step)
  have 4: "useCartLinesAdd_effect True (Some ev) (useCartLinesAdd_effect True (Some ev) hook)
           = useCartLinesAdd_effect True (Some ev) hook"
    by (simp add: hook_step)
  have 5: "map event_id (delivered form) = remdups_adj (formObservedIds observations)"
    unfolding form_def by (rule form_delivered_ids)
  have 6: "map event_id (delivered hook) = remdups_adj (hookObservedIds observations)"
    unfolding hook_def by (rule hook_delivered_ids)
  from 1 2 3 4 5 6 show ?thesis by simp
qed

theorem event_delivered_once_witness:
  "delivered (runEffects (CartLinesAddForm_effect True)
      [Some (ex_event ''uuid-1''), Some (ex_event ''uuid-1''), None, Some (ex_event ''uuid-2''),
       Some (ex_event ''uuid-2'')])
     = [ex_event ''uuid-1'', ex_event ''uuid-2'']
   \<and> delivered (CartLinesAddForm_effect True (Some (ex_event ''uuid-2''))
       (runEffects (CartLinesAddForm_effect True)
         [Some (ex_event ''uuid-1''), Some (ex_event ''uuid-1''), None, Some (ex_event ''uuid-2''),
          Some (ex_event ''uuid-2'')]))
     = [ex_event ''uuid-1'', ex_event ''uuid-2'']
   \<and> distinct (map event_id (delivered (runEffects (useCartLinesAdd_effect True)
       [Some (ex_event ''uuid-1''), Some (ex_event ''uuid-1''), None, Some (ex_event ''uuid-2''),
        Some (ex_event ''uuid-2'')])))"
  using event_delivered_once
    [of "ex_event ''uuid-2''"
        "[Some (ex_event ''uuid-1''), Some (ex_event ''uuid-1''), None, Some (ex_event ''uuid-2''),
          Some (ex_event ''uuid-2'')]"]
  by (simp add: runEffects_def initialConsumer_def form_step form_step_None hook_step
      hook_step_None ex_event_def lastDeliveredId_def formObservedIds_def hookObservedIds_def
      observedEvents_def List.map_filter_def)

section \<open>Properties of the optimistic lines\<close>

lemma comparer_optimistic_iff:
  "comparer_optimistic prevLine line \<longleftrightarrow>
     (\<exists>m. merchandiseIdOf prevLine = Some m \<and> merchandiseIdOf line = Some m)"
  by (auto simp add: comparer_optimistic_def split: option.splits)

text \<open>
  Claim C8. \<^verbatim>\<open>useOptimisticCartLinesAdding\<close>: (i) with no fetcher submitting to the
  action, or no \<^verbatim>\<open>optimisticLines\<close> field in its submission, both results are empty;
  (ii) when the field decodes to \<open>parsed\<close> and the argument \<^verbatim>\<open>lines\<close> is not an array
  or is empty, \<^verbatim>\<open>optimisticLinesNew\<close> is all of \<open>parsed\<close>; (iii) otherwise
  \<^verbatim>\<open>optimisticLinesNew\<close> is the \<^verbatim>\<open>added\<close> part of the diff of \<^verbatim>\<open>lines\<close> and
  \<open>parsed\<close> under the comparison that accepts two lines exactly when both have a
  merchandise id and the ids are equal, so that an optimistic line without a merchandise
  id is always new. The function is a function of its arguments only: it returns new
  values and changes none of them.
\<close>

theorem useOptimisticCartLinesAdding_cases:
  fixes parse :: "string \<Rightarrow> Error + PartialCartLine list"
  defines "field \<equiv> \<lambda>path fetchers. optimisticLinesField (useCartLinesAddingFetcher path fetchers)"
  shows "(useCartLinesAddingFetcher path fetchers = None \<or> field path fetchers = None \<longrightarrow>
            useOptimisticCartLinesAdding parse path fetchers lines
              = Inr \<lparr>optimisticLines = [], optimisticLinesNew = []\<rparr>)
       \<and> (field path fetchers = Some (Str s) \<longrightarrow> s \<noteq> [] \<longrightarrow> parse s = Inr parsed \<longrightarrow>
            lines = None \<or> lines = Some [] \<longrightarrow>
            useOptimisticCartLinesAdding parse path fetchers lines
              = Inr \<lparr>optimisticLines = parsed, optimisticLinesNew = parsed\<rparr>)
       \<and> (field path fetchers = Some (Str s) \<longrightarrow> s \<noteq> [] \<longrightarrow> parse s = Inr parsed \<longrightarrow>
            lines = Some ls \<longrightarrow> ls \<noteq> [] \<longrightarrow>
            useOptimisticCartLinesAdding parse path fetchers lines
              = Inr \<lparr>optimisticLines = parsed,
                     optimisticLinesNew = added (diff ls parsed comparer_optimistic)\<rparr>
            \<and> (\<forall>line \<in> set parsed. merchandiseIdOf line = None \<longrightarrow>
                  line \<in> set (added (diff ls parsed comparer_optimistic))))
       \<and> (comparer_optimistic prevLine line \<longleftrightarrow>
            (\<exists>m. merchandiseIdOf prevLine = Some m \<and> merchandiseIdOf line = Some m))"
proof (intro conjI impI)
  assume "useCartLinesAddingFetcher path fetchers = None \<or> field path fetchers = None"
  then show "useOptimisticCartLinesAdding parse path fetchers lines
              = Inr \<lparr>optimisticLines = [], optimisticLinesNew = []\<rparr>"
    by (auto simp add: useOptimisticCartLinesAdding_def field_def optimisticLinesField_def)
next
  assume "field path fetchers = Some (Str s)" "s \<noteq> []" "parse s = Inr parsed"
    "lines = None \<or> lines = Some []"
  then show "useOptimisticCartLinesAdding parse path fetchers lines
              = Inr \<lparr>optimisticLines = parsed, optimisticLinesNew = parsed\<rparr>"
    by (auto simp add: useOptimisticCartLinesAdding_def field_def)
next
  assume "field path fetchers = Some (Str s)" "s \<noteq> []" "parse s = Inr parsed"
    "lines = Some ls" "ls \<noteq> []"
  then show "useOptimisticCartLinesAdding parse path fetchers lines
              = Inr \<lparr>optimisticLines = parsed,
                     optimisticLinesNew = added (diff ls parsed comparer_optimistic)\<rparr>"
    by (cases parsed) (simp_all add: useOptimisticCartLinesAdding_def field_def)
next
  show "\<forall>line \<in> set parsed. merchandiseIdOf line = None \<longrightarrow>
          line \<in> set (added (diff ls parsed comparer_optimistic))"
    by (auto intro!: unmatched_in_added simp add: comparer_optimistic_iff)
next
  show "comparer_optimistic prevLine line \<longleftrightarrow>
            (\<exists>m. merchandiseIdOf prevLine = Some m \<and> merchandiseIdOf line = Some m)"
    by (rule comparer_optimistic_iff)
qed

theorem useOptimisticCartLinesAdding_cases_witness:
  "useOptimisticCartLinesAdding ex_parse_optimistic ''/cart/CartLinesAdd'' [] None
     = Inr \<lparr>optimisticLines = [], optimisticLinesNew = []\<rparr>
   \<and> useOptimisticCartLinesAdding ex_parse_optimistic ''/cart/CartLinesAdd'' ex_fetchers (Some [])
     = Inr \<lparr>optimisticLines = [ex_optimistic None ''variant/A'', ex_optimistic None ''variant/B''],
            optimisticLinesNew = [ex_optimistic None ''variant/A'', ex_optimistic None ''variant/B'']\<rparr>
   \<and> useOptimisticCartLinesAdding ex_parse_optimistic ''/cart/CartLinesAdd'' ex_fetchers
       (Some [ex_optimistic (Some ''line/1'') ''variant/A''])
     = Inr \<lparr>optimisticLines = [ex_optimistic None ''variant/A'', ex_optimistic None ''variant/B''],
            optimisticLinesNew = [ex_optimistic None ''variant/B'']\<rparr>"
proof -
  have f: "optimisticLinesField (useCartLinesAddingFetcher ''/cart/CartLinesAdd'' ex_fetchers)
             = Some (Str ''[A,B]'')"
    by (simp add: optimisticLinesField_def useCartLinesAddingFetcher_def ex_fetchers_def get_def)
  have p: "ex_parse_optimistic ''[A,B]''
             = Inr [ex_optimistic None ''variant/A'', ex_optimistic None ''variant/B'']"
    by (simp add: ex_parse_optimistic_def)
  have d: "added (diff [ex_optimistic (Some ''line/1'') ''variant/A'']
                    [ex_optimistic None ''variant/A'', ex_optimistic None ''variant/B'']
                    comparer_optimistic)
             = [ex_optimistic None ''variant/B'']"
    by (simp add: added_diff comparer_optimistic_def merchandiseIdOf_def ex_optimistic_def)
  have 1: "useOptimisticCartLinesAdding ex_parse_optimistic ''/cart/CartLinesAdd'' [] None
     = Inr \<lparr>optimisticLines = [], optimisticLinesNew = []\<rparr>"
    using useOptimisticCartLinesAdding_cases
      [of "''/cart/CartLinesAdd''" "[]" ex_parse_optimistic None]
    by (simp add: useCartLinesAddingFetcher_def)
  have 2: "useOptimisticCartLinesAdding ex_parse_optimistic ''/cart/CartLinesAdd'' ex_fetchers (Some [])
     = Inr \<lparr>optimisticLines = [ex_optimistic None ''variant/A'', ex_optimistic None ''variant/B''],
            optimisticLinesNew = [ex_optimistic None ''variant/A'', ex_optimistic None ''variant/B'']\<rparr>"
    using useOptimisticCartLinesAdding_cases
      [of "''/cart/CartLinesAdd''" ex_fetchers ex_parse_optimistic "Some []" "''[A,B]''"
          "[ex_optimistic None ''variant/A'', ex_optimistic None ''variant/B'']"] f p
    by simp
  have 3: "useOptimisticCartLinesAdding ex_parse_optimistic ''/cart/CartLinesAdd'' ex_fetchers
       (Some [ex_optimistic (Some ''line/1'') ''variant/A''])
     = Inr \<lparr>optimisticLines = [ex_optimistic None ''variant/A'', ex_optimistic None ''variant/B''],
            optimisticLinesNew = [ex_optimistic None ''variant/B'']\<rparr>"
    using useOptimisticCartLinesAdding_cases
      [of "''/cart/CartLinesAdd''" ex_fetchers ex_parse_optimistic
          "Some [ex_optimistic (Some ''line/1'') ''variant/A'']" "''[A,B]''"
          "[ex_optimistic None ''variant/A'', ex_optimistic None ''variant/B'']"
          "[ex_optimistic (Some ''line/1'') ''variant/A'']"] f p d
    by simp
  from 1 2 3 show ?thesis by simp
qed

section \<open>The sequence diff on sequences in the same order\<close>

lemma edits_map_Add [simp]: "edits (map Add b) = length b"
  by (induction b) simp_all

lemma edits_map_Remove [simp]: "edits (map Remove a) = length a"
  by (induction a) simp_all

lemma edits_bestSubSequence:
  "edits (bestSubSequence f a b) + length b
     = length a + 2 * length (addedOf (bestSubSequence f a b))"
  by (induction f a b rule: bestSubSequence.induct) auto

lemma sameOrder_sym: "sameOrder key a b \<Longrightarrow> sameOrder key b a"
  unfolding sameOrder_def
  by (intro conjI)
    (erule conjE, erule conjE, assumption, erule conjE, erule conjE, assumption,
     erule conjE, erule conjE, erule sym)

lemma sameOrder_tl_left:
  assumes "sameOrder key (x # a) b"
  shows "sameOrder key a b"
proof -
  let ?A = "map key a" and ?B = "map key b" and ?i = "key x"
  from assms have i: "?i \<notin> set ?A" and da: "distinct ?A" and db: "distinct ?B"
    by (simp_all add: sameOrder_def)
  from assms have "filter (\<lambda>j. j \<in> key ` set b) (map key (x # a))
      = filter (\<lambda>j. j \<in> key ` set (x # a)) (map key b)"
    unfolding sameOrder_def by (elim conjE)
  then have eq: "filter (\<lambda>j. j \<in> set ?B) (?i # ?A) = filter (\<lambda>j. j = ?i \<or> j \<in> set ?A) ?B"
    by simp
  have "filter (\<lambda>j. j \<in> set ?A) ?B
          = filter (\<lambda>j. (j = ?i \<or> j \<in> set ?A) \<and> j \<noteq> ?i) ?B"
    by (rule filter_cong [OF refl]) (use i in blast)
  also have "\<dots> = filter (\<lambda>j. j \<noteq> ?i) (filter (\<lambda>j. j = ?i \<or> j \<in> set ?A) ?B)"
    by simp
  also have "\<dots> = filter (\<lambda>j. j \<noteq> ?i) (filter (\<lambda>j. j \<in> set ?B) (?i # ?A))"
    by (simp only: eq)
  also have "\<dots> = filter (\<lambda>j. j \<in> set ?B \<and> j \<noteq> ?i) ?A"
    by simp
  also have "\<dots> = filter (\<lambda>j. j \<in> set ?B) ?A"
    by (rule filter_cong [OF refl]) (use i in blast)
  finally have "filter (\<lambda>j. j \<in> set ?B) ?A = filter (\<lambda>j. j \<in> set ?A) ?B"
    by simp
  with da db show ?thesis
    by (simp add: sameOrder_def)
qed

lemma sameOrder_tl_right: "sameOrder key a (y # b) \<Longrightarrow> sameOrder key a b"
  by (rule sameOrder_sym, rule sameOrder_tl_left, erule sameOrder_sym)

lemma sameOrder_no_crossing:
  assumes "sameOrder key (x # a) (y # b)" and "key x \<in> key ` set b" and "key y \<in> key ` set a"
  shows False
proof -
  from assms(1) have "filter (\<lambda>j. j \<in> key ` set (y # b)) (map key (x # a))
      = filter (\<lambda>j. j \<in> key ` set (x # a)) (map key (y # b))"
    unfolding sameOrder_def by (elim conjE)
  with assms(2,3) have "key x # filter (\<lambda>j. j \<in> key ` set (y # b)) (map key a)
      = key y # filter (\<lambda>j. j \<in> key ` set (x # a)) (map key b)"
    by simp
  then have "key x = key y" by simp
  moreover from assms have "key y \<notin> key ` set b" by (simp add: sameOrder_def)
  ultimately show False using assms(2) by simp
qed

lemma length_filter_remove1:
  "distinct b \<Longrightarrow> y \<in> set b \<Longrightarrow> P y \<Longrightarrow>
     length (filter P b) = Suc (length (filter (\<lambda>z. P z \<and> z \<noteq> y) b))"
proof (induction b)
  case Nil
  then show ?case by simp
next
  case (Cons z b)
  show ?case
  proof (cases "z = y")
    case True
    with Cons.prems have "filter (\<lambda>z. P z \<and> z \<noteq> y) b = filter P b"
      by (intro filter_cong [OF refl]) auto
    with True Cons.prems show ?thesis by simp
  next
    case False
    with Cons show ?thesis by simp
  qed
qed

text \<open>
  On two sequences in the same order, under a comparison that only accepts equal keys,
  the additions are exactly the elements of the second sequence that no element of the
  first matches.
\<close>

lemma sameOrder_addedOf:
  "\<forall>x y. f x y \<longrightarrow> key x = key y \<Longrightarrow> sameOrder key a b \<Longrightarrow>
     addedOf (bestSubSequence f a b) = filter (\<lambda>z. \<forall>x' \<in> set a. \<not> f x' z) b"
proof (induction f a b rule: bestSubSequence.induct)
  case (1 f b)
  then show ?case by simp
next
  case (2 f x a)
  then show ?case by simp
next
  case (3 f x a y b)
  note keys = "3.prems"(1)
  have key: "key u = key v" if "f u v" for u v
    using keys that by blast
  note so = "3.prems"(2)
  have so1: "sameOrder key a (y # b)" using so by (rule sameOrder_tl_left)
  have so2: "sameOrder key (x # a) b" using so by (rule sameOrder_tl_right)
  have so3: "sameOrder key a b" using so1 by (rule sameOrder_tl_right)
  have dka: "distinct (map key (x # a))"
    using so unfolding sameOrder_def by (rule conjunct1)
  have dkb: "distinct (map key (y # b))"
    using so unfolding sameOrder_def by (rule conjunct1 [OF conjunct2])
  have dist_a: "distinct (x # a)" and inja: "inj_on key (set (x # a))"
    using dka by (simp_all only: distinct_map)
  have dist_b: "distinct (y # b)" and injb: "inj_on key (set (y # b))"
    using dkb by (simp_all only: distinct_map)
  have inj_a: "u = v" if "u \<in> set (x # a)" "v \<in> set (x # a)" "key u = key v" for u v
    using inj_onD [OF inja that(3) that(1) that(2)] .
  have inj_b: "u = v" if "u \<in> set (y # b)" "v \<in> set (y # b)" "key u = key v" for u v
    using inj_onD [OF injb that(3) that(1) that(2)] .
  show ?case
  proof (cases "f x y")
    case True
    have "\<not> f x z" if "z \<in> set b" for z
    proof
      assume "f x z"
      then have "key z = key y" using True key [of x z] key [of x y] by simp
      with that inj_b [of z y] dist_b show False by auto
    qed
    then have "filter (\<lambda>z. \<forall>x' \<in> set (x # a). \<not> f x' z) b
                 = filter (\<lambda>z. \<forall>x' \<in> set a. \<not> f x' z) b"
      by (intro filter_cong [OF refl]) simp
    moreover have "addedOf (bestSubSequence f (x # a) (y # b)) = addedOf (bestSubSequence f a b)"
      using True by simp
    moreover have "filter (\<lambda>z. \<forall>x' \<in> set (x # a). \<not> f x' z) (y # b)
                 = filter (\<lambda>z. \<forall>x' \<in> set (x # a). \<not> f x' z) b"
      using True by simp
    ultimately show ?thesis
      using "3.IH"(1) [OF True keys so3] by (simp only:)
  next
    case False
    note ih1 = "3.IH"(2) [OF False keys so1]
    note ih2 = "3.IH"(3) [OF False keys so2]
    let ?n1 = "length (filter (\<lambda>z. \<forall>x' \<in> set a. \<not> f x' z) (y # b))"
    let ?n2 = "length (filter (\<lambda>z. \<forall>x' \<in> set (x # a). \<not> f x' z) b)"
    have e1: "edits (bestSubSequence f a (y # b)) + length (y # b) = length a + 2 * ?n1"
      using edits_bestSubSequence [of f a "y # b"] by (simp only: ih1)
    have e2: "edits (bestSubSequence f (x # a) b) + length b = length (x # a) + 2 * ?n2"
      using edits_bestSubSequence [of f "x # a" b] by (simp only: ih2)
    have cond: "edits (bestSubSequence f a (y # b)) \<le> edits (bestSubSequence f (x # a) b)
                  \<longleftrightarrow> ?n1 \<le> Suc ?n2"
      using e1 e2 by (simp only: list.size) arith
    show ?thesis
    proof (cases "\<exists>y' \<in> set b. f x y'")
      case True
      then obtain y' where y': "y' \<in> set b" "f x y'" by blast
      have ky': "key y' = key x" using y' key [of x y'] by simp
      have un_y: "\<not> f x' y" if "x' \<in> set (x # a)" for x'
      proof
        assume fy: "f x' y"
        with False that have "x' \<in> set a" by auto
        moreover have "key x' = key y" using fy by (rule key)
        ultimately have "key y \<in> key ` set a" by (metis imageI)
        moreover have "key x \<in> key ` set b" using y' ky' by (metis imageI)
        ultimately show False using sameOrder_no_crossing [OF so] by blast
      qed
      have un_y': "\<forall>x' \<in> set a. \<not> f x' y'"
      proof
        fix x' assume x': "x' \<in> set a"
        show "\<not> f x' y'"
        proof
          assume "f x' y'"
          then have "key x' = key x" using ky' key [of x' y'] by simp
          with x' inj_a [of x' x] dist_a show False by auto
        qed
      qed
      have "(\<forall>x' \<in> set (x # a). \<not> f x' z) \<longleftrightarrow> (\<forall>x' \<in> set a. \<not> f x' z) \<and> z \<noteq> y'"
        if z: "z \<in> set b" for z
      proof -
        have "z = y'" if "f x z"
        proof -
          from that have "key z = key y'" using ky' key [of x z] by simp
          with z y' inj_b [of z y'] show ?thesis by auto
        qed
        with y' show ?thesis by auto
      qed
      then have "filter (\<lambda>z. \<forall>x' \<in> set (x # a). \<not> f x' z) b
                   = filter (\<lambda>z. (\<forall>x' \<in> set a. \<not> f x' z) \<and> z \<noteq> y') b"
        by (intro filter_cong [OF refl]) blast
      moreover have "length (filter (\<lambda>z. \<forall>x' \<in> set a. \<not> f x' z) b)
                       = Suc (length (filter (\<lambda>z. (\<forall>x' \<in> set a. \<not> f x' z) \<and> z \<noteq> y') b))"
      proof (rule length_filter_remove1)
        show "distinct b" using dist_b by simp
        show "y' \<in> set b" by (rule y')
        show "\<forall>x' \<in> set a. \<not> f x' y'" by (rule un_y')
      qed
      ultimately have "length (filter (\<lambda>z. \<forall>x' \<in> set a. \<not> f x' z) b) = Suc ?n2"
        by simp
      moreover have "?n1 = Suc (length (filter (\<lambda>z. \<forall>x' \<in> set a. \<not> f x' z) b))"
        using un_y by simp
      ultimately have "\<not> ?n1 \<le> Suc ?n2" by (simp only:)
      with cond have "bestSubSequence f (x # a) (y # b) = Add y # bestSubSequence f (x # a) b"
        using False by (simp only: bestSubSequence.simps if_False)
      then have "addedOf (bestSubSequence f (x # a) (y # b))
                   = y # filter (\<lambda>z. \<forall>x' \<in> set (x # a). \<not> f x' z) b"
        by (simp only: addedOf.simps ih2)
      moreover have "filter (\<lambda>z. \<forall>x' \<in> set (x # a). \<not> f x' z) (y # b)
                   = y # filter (\<lambda>z. \<forall>x' \<in> set (x # a). \<not> f x' z) b"
        using un_y by simp
      ultimately show ?thesis by (simp only:)
    next
      case un_x: False
      have nx: "\<not> f x z" if "z \<in> set (y # b)" for z
        using that un_x False by auto
      have feq: "filter (\<lambda>z. \<forall>x' \<in> set (x # a). \<not> f x' z) (y # b)
                   = filter (\<lambda>z. \<forall>x' \<in> set a. \<not> f x' z) (y # b)"
        by (rule filter_cong [OF refl]) (use nx in simp)
      have "filter (\<lambda>z. \<forall>x' \<in> set (x # a). \<not> f x' z) b
                   = filter (\<lambda>z. \<forall>x' \<in> set a. \<not> f x' z) b"
        by (rule filter_cong [OF refl]) (use nx in simp)
      then have "?n2 = length (filter (\<lambda>z. \<forall>x' \<in> set a. \<not> f x' z) b)"
        by (simp only:)
      then have "?n1 \<le> Suc ?n2" by simp
      with cond have "bestSubSequence f (x # a) (y # b) = Remove x # bestSubSequence f a (y # b)"
        using False by (simp only: bestSubSequence.simps if_False if_True)
      then have "addedOf (bestSubSequence f (x # a) (y # b))
                   = filter (\<lambda>z. \<forall>x' \<in> set a. \<not> f x' z) (y # b)"
        by (simp only: addedOf.simps ih1)
      with feq show ?thesis by (simp only:)
    qed
  qed
qed

lemma sameOrder_added:
  "\<forall>x y. f x y \<longrightarrow> key x = key y \<Longrightarrow> sameOrder key a b \<Longrightarrow>
     added (diff a b f) = filter (\<lambda>z. \<forall>x' \<in> set a. \<not> f x' z) b"
  by (simp only: added_diff sameOrder_addedOf)

text \<open>
  Claim C3, as amended. Every line in \<^verbatim>\<open>linesAdded\<close> appears in the current cart
  snapshot (\<^verbatim>\<open>linesAdded\<close> is a subsequence of it). When line ids are distinct within
  \<^verbatim>\<open>prevLines\<close> and within \<^verbatim>\<open>currentLines\<close> and the lines present in both keep their
  relative order, \<^verbatim>\<open>linesAdded\<close> is exactly the current lines that no previous line
  matches; then its lines have pairwise distinct line ids (their merchandise ids may
  coincide), and each has a quantity strictly greater than that of the previous line
  with the same line id and merchandise id, if there is one: it was not present with an
  equal or greater quantity before the mutation.
\<close>

theorem diffLines_added_same_order:
  fixes props :: DiffLinesProps
  defines "prev \<equiv> toDiffingLines (prevLines props)"
    and "next \<equiv> toDiffingLines (currentLines props)"
  shows "subseq (linesAdded (diffLines props)) next
       \<and> (sameOrder dl_id prev next \<longrightarrow>
            linesAdded (diffLines props)
              = filter (\<lambda>line. \<forall>prevLine \<in> set prev. \<not> comparer prevLine line) next
            \<and> distinct (map dl_id (linesAdded (diffLines props)))
            \<and> (\<forall>line \<in> set (linesAdded (diffLines props)).
                 line \<in> set next \<and>
                 (\<forall>prevLine \<in> set prev.
                    dl_id prevLine = dl_id line \<and>
                    dl_merchandiseId prevLine = dl_merchandiseId line
                    \<longrightarrow> dl_quantity prevLine < dl_quantity line)))"
proof (intro conjI impI)
  show "subseq (linesAdded (diffLines props)) next"
    by (simp add: linesAdded_diffLines next_def subseq_added_diff)
next
  assume so: "sameOrder dl_id prev next"
  have "\<forall>x y. comparer x y \<longrightarrow> dl_id x = dl_id y"
    by (simp add: comparer_def)
  then have "added (diff prev next comparer)
               = filter (\<lambda>line. \<forall>prevLine \<in> set prev. \<not> comparer prevLine line) next"
    using so by (rule sameOrder_added)
  then show eq: "linesAdded (diffLines props)
               = filter (\<lambda>line. \<forall>prevLine \<in> set prev. \<not> comparer prevLine line) next"
    by (simp add: linesAdded_diffLines prev_def next_def)
  from so have "distinct (map dl_id next)"
    unfolding sameOrder_def by (rule conjunct1 [OF conjunct2])
  then show "distinct (map dl_id (linesAdded (diffLines props)))"
    by (simp only: eq distinct_map_filter)
  show "\<forall>line \<in> set (linesAdded (diffLines props)).
                 line \<in> set next \<and>
                 (\<forall>prevLine \<in> set prev.
                    dl_id prevLine = dl_id line \<and>
                    dl_merchandiseId prevLine = dl_merchandiseId line
                    \<longrightarrow> dl_quantity prevLine < dl_quantity line)"
    by (simp only: eq) (auto simp add: comparer_def)
qed

theorem diffLines_added_same_order_witness:
  "sameOrder dl_id (toDiffingLines (prevLines ex_grown)) (toDiffingLines (currentLines ex_grown))
   \<and> linesAdded (diffLines ex_grown)
       = [\<lparr>dl_id = ''1'', dl_quantity = 3, dl_merchandiseId = ''A''\<rparr>,
          \<lparr>dl_id = ''3'', dl_quantity = 1, dl_merchandiseId = ''A''\<rparr>]"
proof -
  have so: "sameOrder dl_id (toDiffingLines (prevLines ex_grown))
              (toDiffingLines (currentLines ex_grown))"
    by (simp add: sameOrder_def ex_grown_def ex_cartLine_def toDiffingLine_def)
  from so diffLines_added_same_order [of ex_grown]
  have "linesAdded (diffLines ex_grown)
          = filter (\<lambda>line. \<forall>prevLine \<in> set (toDiffingLines (prevLines ex_grown)).
                      \<not> comparer prevLine line)
              (toDiffingLines (currentLines ex_grown))"
    by blast
  then have "linesAdded (diffLines ex_grown)
       = [\<lparr>dl_id = ''1'', dl_quantity = 3, dl_merchandiseId = ''A''\<rparr>,
          \<lparr>dl_id = ''3'', dl_quantity = 1, dl_merchandiseId = ''A''\<rparr>]"
    by (simp add: ex_grown_def ex_cartLine_def toDiffingLine_def comparer_def)
  with so show ?thesis by simp
qed

theorem diffLines_added_reordered:
  "linesAdded (diffLines ex_reordered)
     = [\<lparr>dl_id = ''1'', dl_quantity = 3, dl_merchandiseId = ''A''\<rparr>,
        \<lparr>dl_id = ''4'', dl_quantity = 1, dl_merchandiseId = ''A''\<rparr>]
   \<and> \<not> distinct (map dl_merchandiseId (linesAdded (diffLines ex_reordered)))
   \<and> \<lparr>dl_id = ''1'', dl_quantity = 5, dl_merchandiseId = ''A''\<rparr>
       \<in> set (toDiffingLines (prevLines ex_reordered))"
proof -
  have "linesAdded (diffLines ex_reordered)
     = [\<lparr>dl_id = ''1'', dl_quantity = 3, dl_merchandiseId = ''A''\<rparr>,
        \<lparr>dl_id = ''4'', dl_quantity = 1, dl_merchandiseId = ''A''\<rparr>]"
    by (simp add: linesAdded_diffLines added_diff ex_reordered_def ex_cartLine_def
        toDiffingLine_def comparer_def)
  moreover have "\<lparr>dl_id = ''1'', dl_quantity = 5, dl_merchandiseId = ''A''\<rparr>
       \<in> set (toDiffingLines (prevLines ex_reordered))"
    by (simp add: ex_reordered_def ex_cartLine_def toDiffingLine_def)
  ultimately show ?thesis by simp
qed

end
